theory Spec2Isabelle
  imports Complex_Main "HOL-Library.Word"
begin

section \<open>Shared data model (index.ts)\<close>

text \<open>
  The role of a conversation message, the union type of \<^verbatim>\<open>Message.role\<close>.
  The prepared messages sent to a provider carry a role of the same type: the
  TypeScript casts (\<^verbatim>\<open>msg.role as "system" | "user" | "assistant"\<close>) do nothing at
  run time, so that a role outside the provider's set can only be excluded by the code.
\<close>

datatype role = System | User | Assistant | Tool | Function

record message =
  role :: role
  content :: string

datatype thinking = Off | Low | Medium | High

text \<open>
  A JavaScript number, as far as the clients look at it: they test it for truthiness,
  compare it with \<^verbatim>\<open>0\<close> and \<^verbatim>\<open>undefined\<close>, and pass it on. \<^verbatim>\<open>+0\<close> and \<^verbatim>\<open>-0\<close>
  are both \<open>Num 0\<close> (they are equal under \<^verbatim>\<open>===\<close> and both falsy).
\<close>

datatype number = Num real | Infinity | NegInfinity | NaN

text \<open>An optional field is an \<open>option\<close>: \<open>None\<close> is \<^verbatim>\<open>undefined\<close>.\<close>

record AskParameters =
  messages :: "message list option"
  temperature :: "number option"
  maxTokens :: "number option"
  topP :: "number option"
  topK :: "number option"
  presencePenalty :: "number option"
  frequencyPenalty :: "number option"
  instructions :: "string option"
  thinking :: "thinking option"
  user :: "string option"

record 's AskParametersJSON = AskParameters +
  schema :: 's

text \<open>
  \<^verbatim>\<open>AiClientCommonParameters & { model }\<close>. The fields \<^verbatim>\<open>instructions\<close> and
  \<^verbatim>\<open>thinking\<close> of the client are named \<open>clientInstructions\<close> and \<open>clientThinking\<close>
  here, the names without prefix being those of \<open>AskParameters\<close>.
\<close>

record 'm ClientParameters =
  apiKey :: string
  baseUrl :: "string option"
  clientInstructions :: "string option"
  clientThinking :: "thinking option"
  model :: 'm

section \<open>JavaScript primitives used by the clients\<close>

text \<open>Truthiness of an optional number: \<^verbatim>\<open>undefined\<close>, \<^verbatim>\<open>0\<close> and \<^verbatim>\<open>NaN\<close> are falsy.\<close>

fun truthyNumber :: "number option \<Rightarrow> bool" where
  "truthyNumber None = False"
| "truthyNumber (Some (Num r)) = (r \<noteq> 0)"
| "truthyNumber (Some Infinity) = True"
| "truthyNumber (Some NegInfinity) = True"
| "truthyNumber (Some NaN) = False"

text \<open>Truthiness of an optional string: \<^verbatim>\<open>undefined\<close>, \<^verbatim>\<open>null\<close> and \<^verbatim>\<open>""\<close> are falsy.\<close>

fun truthyString :: "'a list option \<Rightarrow> bool" where
  "truthyString None = False"
| "truthyString (Some s) = (s \<noteq> [])"

text \<open>\<^verbatim>\<open>a ?? b\<close> on optional values.\<close>

fun nullish :: "'a option \<Rightarrow> 'a option \<Rightarrow> 'a option" where
  "nullish None b = b"
| "nullish (Some a) b = Some a"

text \<open>\<^verbatim>\<open>xs.findIndex(p)\<close>; \<open>None\<close> is the result \<^verbatim>\<open>-1\<close>.\<close>

fun findIndexFrom :: "nat \<Rightarrow> ('a \<Rightarrow> bool) \<Rightarrow> 'a list \<Rightarrow> nat option" where
  "findIndexFrom i p [] = None"
| "findIndexFrom i p (x # xs) = (if p x then Some i else findIndexFrom (Suc i) p xs)"

definition findIndex :: "('a \<Rightarrow> bool) \<Rightarrow> 'a list \<Rightarrow> nat option" where
  "findIndex p xs = findIndexFrom 0 p xs"

text \<open>\<^verbatim>\<open>xs.filter((x, index) => p(x, index))\<close>.\<close>

fun filterIndexFrom :: "nat \<Rightarrow> ('a \<Rightarrow> nat \<Rightarrow> bool) \<Rightarrow> 'a list \<Rightarrow> 'a list" where
  "filterIndexFrom i p [] = []"
| "filterIndexFrom i p (x # xs) =
     (if p x i then x # filterIndexFrom (Suc i) p xs else filterIndexFrom (Suc i) p xs)"

definition filterIndex :: "('a \<Rightarrow> nat \<Rightarrow> bool) \<Rightarrow> 'a list \<Rightarrow> 'a list" where
  "filterIndex p xs = filterIndexFrom 0 p xs"

text \<open>\<^verbatim>\<open>xs[i]\<close>, which is \<^verbatim>\<open>undefined\<close> out of range.\<close>

definition elementAt :: "'a list \<Rightarrow> nat \<Rightarrow> 'a option" where
  "elementAt xs i = (if i < length xs then Some (xs ! i) else None)"

text \<open>
  A text that a provider returns is a JavaScript string, a sequence of UTF-16 code
  units, and the clients look into it (\<^verbatim>\<open>startsWith\<close>, \<^verbatim>\<open>lastIndexOf\<close>,
  \<^verbatim>\<open>slice\<close>, \<^verbatim>\<open>trimStart\<close>, \<^verbatim>\<open>trim\<close>): it is a list of 16-bit words. The texts
  that the clients only copy and join (the content of a message, instructions, a
  prompt, the message of an error) are of the type \<open>string\<close>.
\<close>

type_synonym code_unit = "16 word"

type_synonym js_string = "code_unit list"

text \<open>The JavaScript string of a string literal of the source, which is ASCII.\<close>

definition jsString :: "string \<Rightarrow> js_string" where
  "jsString s = map of_char s"

text \<open>
  The white space that \<^verbatim>\<open>trimStart\<close> and \<^verbatim>\<open>trim\<close> remove, the WhiteSpace and
  LineTerminator code points of ECMAScript, each one code unit: tab, line feed,
  vertical tab, form feed, carriage return, space, no-break space, U+1680, U+2000
  to U+200A, U+2028, U+2029, U+202F, U+205F, U+3000 and U+FEFF.
\<close>

definition isWhiteSpace :: "code_unit \<Rightarrow> bool" where
  "isWhiteSpace c =
     (c \<in> set [0x0009, 0x000A, 0x000B, 0x000C, 0x000D, 0x0020, 0x00A0, 0x1680,
                0x2028, 0x2029, 0x202F, 0x205F, 0x3000, 0xFEFF]
      \<or> (0x2000 \<le> c \<and> c \<le> 0x200A))"

definition trimStart :: "js_string \<Rightarrow> js_string" where
  "trimStart s = dropWhile isWhiteSpace s"

definition trimEnd :: "js_string \<Rightarrow> js_string" where
  "trimEnd s = rev (dropWhile isWhiteSpace (rev s))"

definition trim :: "js_string \<Rightarrow> js_string" where
  "trim s = trimEnd (trimStart s)"

definition startsWith :: "'a list \<Rightarrow> 'a list \<Rightarrow> bool" where
  "startsWith s p = (take (length p) s = p)"

text \<open>Whether \<open>p\<close> occurs in \<open>s\<close> at position \<open>i\<close>.\<close>

definition occursAt :: "'a list \<Rightarrow> 'a list \<Rightarrow> nat \<Rightarrow> bool" where
  "occursAt s p i = (i + length p \<le> length s \<and> take (length p) (drop i s) = p)"

text \<open>
  \<^verbatim>\<open>s.lastIndexOf(p)\<close>: the greatest position at which \<open>p\<close> occurs in \<open>s\<close>, and
  \<open>-1\<close> when there is none. The search runs down from the last position where
  \<open>p\<close> fits.
\<close>

fun lastIndexFrom :: "'a list \<Rightarrow> 'a list \<Rightarrow> nat \<Rightarrow> int" where
  "lastIndexFrom s p 0 = (if occursAt s p 0 then 0 else - 1)"
| "lastIndexFrom s p (Suc k) =
     (if occursAt s p (Suc k) then int (Suc k) else lastIndexFrom s p k)"

definition lastIndexOf :: "'a list \<Rightarrow> 'a list \<Rightarrow> int" where
  "lastIndexOf s p = (if length s < length p then - 1 else lastIndexFrom s p (length s - length p))"

text \<open>
  \<^verbatim>\<open>s.slice(start)\<close>: a negative start counts from the end, and the start is
  clamped to the string.
\<close>

definition slice :: "'a list \<Rightarrow> int \<Rightarrow> 'a list" where
  "slice s start =
     (if start < 0 then drop (nat (max 0 (int (length s) + start))) s
      else drop (nat start) s)"

text \<open>\<^verbatim>\<open>value || ""\<close> on an optional string.\<close>

fun orEmpty :: "'a list option \<Rightarrow> 'a list" where
  "orEmpty None = []"
| "orEmpty (Some s) = (if s \<noteq> [] then s else [])"

section \<open>Errors (handleError.ts)\<close>

text \<open>
  An \<^verbatim>\<open>Error\<close> object, and a thrown value: JavaScript throws any value, an
  \<^verbatim>\<open>Error\<close> or not. \<open>'x\<close> is the type of the thrown values that are not errors.
\<close>

record js_error =
  error_name :: string
  error_message :: string

datatype 'x thrown = ThrownError js_error | ThrownValue 'x

text \<open>\<^verbatim>\<open>new Error(message)\<close>.\<close>

definition newError :: "string \<Rightarrow> js_error" where
  "newError m = \<lparr>error_name = ''Error'', error_message = m\<rparr>"

text \<open>
  The conversion \<^verbatim>\<open>String(value)\<close> of a value that is not an error calls the
  \<^verbatim>\<open>toString\<close> and \<^verbatim>\<open>valueOf\<close> of the value: it returns a string or throws
  (a \<^verbatim>\<open>TypeError\<close> for an object without them, such as \<^verbatim>\<open>Object.create(null)\<close>,
  or what these methods throw). It is a parameter, \<open>Inl\<close> what it throws.

  \<^verbatim>\<open>error instanceof Error ? error : new Error(String(error))\<close>: \<^verbatim>\<open>handleError\<close>
  returns an error, or throws what \<^verbatim>\<open>String\<close> throws.
\<close>

fun handleError :: "('x \<Rightarrow> 'x thrown + string) \<Rightarrow> 'x thrown \<Rightarrow> 'x thrown + js_error" where
  "handleError String (ThrownError e) = Inr e"
| "handleError String (ThrownValue v) =
     (case String v of Inl t \<Rightarrow> Inl t | Inr m \<Rightarrow> Inr (newError m))"

text \<open>
  The result of an \<^verbatim>\<open>async\<close> function: the promise resolves to a value or
  rejects with the thrown value. \<^verbatim>\<open>ask\<close> and \<^verbatim>\<open>askJson\<close> resolve to
  \<open>Inl\<close> an error or \<open>Inr\<close> the answer.
\<close>

datatype ('x, 'a) promise = Resolved 'a | Rejected "'x thrown"

text \<open>
  What the consumer of an \<^verbatim>\<open>async function*\<close> observes when it iterates to the
  end: the fragments yielded, in order, and then the normal end (\<open>None\<close>) or the
  value thrown at that point of the iteration.
\<close>

record 'x iteration =
  yielded :: "js_string list"
  raised :: "'x thrown option"

text \<open>
  What a provider SDK delivers for a streaming call: the call throws, or it gives a
  finite sequence of chunks that ends normally or by throwing.
\<close>

record ('x, 'c) sdk_stream =
  chunks :: "'c list"
  failure :: "'x thrown option"

text \<open>
  The collaborators of \<^verbatim>\<open>askJson\<close>: \<^verbatim>\<open>toJsonSchema\<close> of
  \<^verbatim>\<open>@valibot/to-json-schema\<close>, \<^verbatim>\<open>JSON.stringify(_, null, 2)\<close>,
  \<^verbatim>\<open>JSON.parse\<close>, \<^verbatim>\<open>parse\<close> of valibot and \<^verbatim>\<open>String\<close>. \<open>'s\<close> is the type of
  schemas, \<open>'j\<close> of JSON-Schema documents, \<open>'v\<close> of JSON values.
\<close>

record ('s, 'j, 'v, 'x) host =
  toJsonSchema :: "'s \<Rightarrow> 'x thrown + 'j"
  stringify :: "'j \<Rightarrow> string"
  JSON_parse :: "js_string \<Rightarrow> 'x thrown + 'v"
  parse :: "'s \<Rightarrow> 'v \<Rightarrow> 'x thrown + 'v"
  String :: "'x \<Rightarrow> 'x thrown + string"

text \<open>Sequencing of steps that may throw: the first throw ends the \<^verbatim>\<open>try\<close> block.\<close>

definition andThen :: "'e + 'a \<Rightarrow> ('a \<Rightarrow> 'e + 'b) \<Rightarrow> 'e + 'b" where
  "andThen r f = (case r of Inl e \<Rightarrow> Inl e | Inr a \<Rightarrow> f a)"

text \<open>
  \<^verbatim>\<open>[...(askParameters.messages ?? []), { role: "user", content: input }]\<close>, the
  first step of every \<^verbatim>\<open>ask\<close>, \<^verbatim>\<open>askJson\<close> and \<^verbatim>\<open>stream\<close>.
\<close>

definition appendInput :: "message list option \<Rightarrow> string \<Rightarrow> message list" where
  "appendInput ms input =
     (case ms of None \<Rightarrow> [] | Some xs \<Rightarrow> xs) @ [\<lparr>role = User, content = input\<rparr>]"

text \<open>
  \<^verbatim>\<open>{ ...askParameters, messages: [...] }\<close>, the value \<^verbatim>\<open>updatedParameters\<close> of
  the clients.
\<close>

definition updatedParameters :: "'a AskParameters_scheme \<Rightarrow> string \<Rightarrow> 'a AskParameters_scheme" where
  "updatedParameters askParameters input =
     askParameters\<lparr>messages := Some (appendInput (messages askParameters) input)\<rparr>"

text \<open>
  \<^verbatim>\<open>try { ... } catch (error) { return handleError(error) }\<close> around the body of
  \<^verbatim>\<open>ask\<close> and \<^verbatim>\<open>askJson\<close>: what the body throws is returned as an error. A
  throw of \<^verbatim>\<open>handleError\<close> itself, inside the \<^verbatim>\<open>catch\<close> block, leaves the
  function: the promise rejects.
\<close>

definition catchReturn ::
  "('x \<Rightarrow> 'x thrown + string) \<Rightarrow> 'x thrown + (js_error + 'a) \<Rightarrow> ('x, js_error + 'a) promise" where
  "catchReturn str body =
     (case body of
        Inl error \<Rightarrow>
          (case handleError str error of
             Inl t \<Rightarrow> Rejected t
           | Inr e \<Rightarrow> Resolved (Inl e))
      | Inr result \<Rightarrow> Resolved result)"

text \<open>
  What \<^verbatim>\<open>throw handleError(error)\<close> throws: the error that \<^verbatim>\<open>handleError\<close>
  returns, or what it throws itself.
\<close>

definition rethrown :: "('x \<Rightarrow> 'x thrown + string) \<Rightarrow> 'x thrown \<Rightarrow> 'x thrown" where
  "rethrown str error =
     (case handleError str error of Inl t \<Rightarrow> t | Inr e \<Rightarrow> ThrownError e)"

text \<open>
  \<^verbatim>\<open>try { ... } catch (error) { throw handleError(error) }\<close> around the body of
  \<^verbatim>\<open>stream\<close>: a throw of the call, or of the iteration of the provider's stream,
  is caught and thrown again, after the fragments already yielded. \<open>fragments\<close>
  gives what the loop yields for the chunks of the provider.
\<close>

definition catchThrow ::
  "('x \<Rightarrow> 'x thrown + string) \<Rightarrow> ('c list \<Rightarrow> js_string list) \<Rightarrow>
   'x thrown + ('x, 'c) sdk_stream \<Rightarrow> 'x iteration" where
  "catchThrow str fragments called =
     (case called of
        Inl error \<Rightarrow> \<lparr>yielded = [], raised = Some (rethrown str error)\<rparr>
      | Inr stream \<Rightarrow>
          \<lparr>yielded = fragments (chunks stream),
           raised = map_option (rethrown str) (failure stream)\<rparr>)"

section \<open>The Groq client (GroqClient.ts)\<close>

datatype GroqModel =
    Llama_3_3_70b_versatile
  | Llama_3_1_8b_instant
  | Gpt_oss_20b
  | Gpt_oss_120b
  | Kimi_k2_instruct
  | Llama_4_maverick_17b_128e_instruct
  | Llama_4_scout_17b_16e_instruct
  | Deepseek_r1_distill_llama_70b
  | Qwen3_32b

definition modelsSupportingStructuredOutputs :: "GroqModel list" where
  "modelsSupportingStructuredOutputs =
     [Gpt_oss_20b, Gpt_oss_120b, Kimi_k2_instruct,
      Llama_4_maverick_17b_128e_instruct, Llama_4_scout_17b_16e_instruct]"

text \<open>The string that a thinking level is in the source.\<close>

fun thinkingName :: "thinking \<Rightarrow> string" where
  "thinkingName Off = ''off''"
| "thinkingName Low = ''low''"
| "thinkingName Medium = ''medium''"
| "thinkingName High = ''high''"

fun getReasoningEffortByModel :: "GroqModel \<Rightarrow> thinking \<Rightarrow> string option" where
  "getReasoningEffortByModel Llama_3_3_70b_versatile v = None"
| "getReasoningEffortByModel Llama_3_1_8b_instant v = None"
| "getReasoningEffortByModel Gpt_oss_20b v = Some (if v = Off then ''low'' else thinkingName v)"
| "getReasoningEffortByModel Gpt_oss_120b v = Some (if v = Off then ''low'' else thinkingName v)"
| "getReasoningEffortByModel Kimi_k2_instruct v = None"
| "getReasoningEffortByModel Llama_4_maverick_17b_128e_instruct v = None"
| "getReasoningEffortByModel Llama_4_scout_17b_16e_instruct v = None"
| "getReasoningEffortByModel Deepseek_r1_distill_llama_70b v = None"
| "getReasoningEffortByModel Qwen3_32b v = Some (if v = Off then ''none'' else ''default'')"

text \<open>
  The role mapping at the end of \<^verbatim>\<open>prepareMessages\<close> of the Groq and the OpenAI
  client: \<^verbatim>\<open>function\<close> and \<^verbatim>\<open>tool\<close> become \<^verbatim>\<open>user\<close>, every other role stays.
\<close>

definition mapUnsupportedToUser :: "message \<Rightarrow> message" where
  "mapUnsupportedToUser msg =
     (if role msg = Function \<or> role msg = Tool
      then \<lparr>role = User, content = content msg\<rparr>
      else \<lparr>role = role msg, content = content msg\<rparr>)"

text \<open>
  \<^verbatim>\<open>prepareMessages(askParameters, systemPrompt)\<close>. \<^verbatim>\<open>messages?.some(...)\<close> is
  \<^verbatim>\<open>undefined\<close>, so falsy, when there are no messages.
\<close>

definition groq_prepareMessages :: "'a AskParameters_scheme \<Rightarrow> string option \<Rightarrow> message list" where
  "groq_prepareMessages askParameters systemPrompt =
     (let preparedMessages =
        (case systemPrompt of
           None \<Rightarrow> messages askParameters
         | Some sp \<Rightarrow>
             if sp \<noteq> [] then
               (let hasSystemMessage =
                  (case messages askParameters of
                     None \<Rightarrow> False
                   | Some ms \<Rightarrow> list_ex (\<lambda>msg. role msg = System) ms)
                in if \<not> hasSystemMessage
                   then Some (\<lparr>role = System, content = sp\<rparr> #
                              (case messages askParameters of None \<Rightarrow> [] | Some ms \<Rightarrow> ms))
                   else map_option
                          (map (\<lambda>msg. if role msg = System
                                       then msg\<lparr>content := content msg @ ''\<newline>\<newline>'' @ sp\<rparr>
                                       else msg))
                          (messages askParameters))
             else messages askParameters)
      in case preparedMessages of
           None \<Rightarrow> []
         | Some ms \<Rightarrow> map mapUnsupportedToUser ms)"

datatype 'j response_format = JsonSchemaFormat string 'j | JsonObjectFormat

record 'j groq_request =
  groq_model :: GroqModel
  groq_messages :: "message list"
  groq_temperature :: "number option"
  groq_max_tokens :: "number option"
  groq_top_p :: "number option"
  groq_presence_penalty :: "number option"
  groq_frequency_penalty :: "number option"
  groq_user :: "string option"
  groq_reasoning_effort :: "string option"
  groq_include_reasoning :: "bool option"
  groq_stream :: "bool option"
  groq_response_format :: "'j response_format option"

definition groq_createBaseCompletionParams ::
  "GroqModel ClientParameters \<Rightarrow> 'a AskParameters_scheme \<Rightarrow> 'j groq_request" where
  "groq_createBaseCompletionParams clientParameters askParameters =
     (let instructions' = nullish (instructions askParameters) (clientInstructions clientParameters);
          model' = model clientParameters;
          thinking' = nullish (thinking askParameters) (clientThinking clientParameters);
          reasoningEffort =
            (case thinking' of None \<Rightarrow> None | Some t \<Rightarrow> getReasoningEffortByModel model' t)
      in \<lparr>groq_model = model',
          groq_messages = groq_prepareMessages askParameters instructions',
          groq_temperature = temperature askParameters,
          groq_max_tokens = maxTokens askParameters,
          groq_top_p = (if truthyNumber (temperature askParameters) then None else topP askParameters),
          groq_presence_penalty = presencePenalty askParameters,
          groq_frequency_penalty = frequencyPenalty askParameters,
          groq_user = user askParameters,
          groq_reasoning_effort = reasoningEffort,
          groq_include_reasoning = (if truthyString reasoningEffort then Some False else None),
          groq_stream = None,
          groq_response_format = None\<rparr>)"

text \<open>
  A chat completion, as far as the clients read it: \<open>choices\<close> lists
  \<^verbatim>\<open>choices[i].message.content\<close>, \<open>None\<close> for \<^verbatim>\<open>null\<close>. A chunk of a stream lists
  \<^verbatim>\<open>choices[i].delta.content\<close>.
\<close>

record chat_completion =
  choices :: "js_string option list"

record chat_chunk =
  delta_choices :: "js_string option list"

text \<open>\<^verbatim>\<open>choices[0]?.message?.content\<close>.\<close>

definition firstContent :: "'a option list \<Rightarrow> 'a option" where
  "firstContent cs = (case elementAt cs 0 of None \<Rightarrow> None | Some c \<Rightarrow> c)"

definition stripThinking :: "js_string option \<Rightarrow> js_string option" where
  "stripThinking value =
     (case value of
        None \<Rightarrow> None
      | Some v \<Rightarrow>
          if startsWith v (jsString ''<think>'')
          then (let stopThinkingAt =
                      lastIndexOf v (jsString ''</think>'') + int (length (jsString ''</think>''))
                in Some (trimStart (slice v stopThinkingAt)))
          else Some v)"

text \<open>
  \<^verbatim>\<open>ask\<close>: the request given to \<^verbatim>\<open>client.chat.completions.create\<close>, the
  \<^verbatim>\<open>try\<close> block, and the function with its \<^verbatim>\<open>catch\<close>.
\<close>

definition groq_ask_request ::
  "GroqModel ClientParameters \<Rightarrow> string \<Rightarrow> 'a AskParameters_scheme \<Rightarrow> 'j groq_request" where
  "groq_ask_request clientParameters input askParameters =
     (groq_createBaseCompletionParams clientParameters (updatedParameters askParameters input))
       \<lparr>groq_stream := Some False\<rparr>"

definition groq_ask_try ::
  "('j groq_request \<Rightarrow> 'x thrown + chat_completion) \<Rightarrow> GroqModel ClientParameters \<Rightarrow>
   string \<Rightarrow> 'a AskParameters_scheme \<Rightarrow> 'x thrown + (js_error + js_string)" where
  "groq_ask_try create clientParameters input askParameters =
     andThen (create (groq_ask_request clientParameters input askParameters))
       (\<lambda>completion.
          let content' = stripThinking (firstContent (choices completion))
          in Inr (Inr (orEmpty content')))"

definition groq_ask ::
  "('x \<Rightarrow> 'x thrown + string) \<Rightarrow> ('j groq_request \<Rightarrow> 'x thrown + chat_completion) \<Rightarrow>
   GroqModel ClientParameters \<Rightarrow> string \<Rightarrow> 'a AskParameters_scheme \<Rightarrow>
   ('x, js_error + js_string) promise" where
  "groq_ask str create clientParameters input askParameters =
     catchReturn str (groq_ask_try create clientParameters input askParameters)"

text \<open>
  \<^verbatim>\<open>askJson\<close>: the request is built in steps that may throw
  (\<^verbatim>\<open>toJsonSchema\<close>), in the order of the source.
\<close>

definition groq_askJson_request ::
  "('s, 'j, 'v, 'x) host \<Rightarrow> GroqModel ClientParameters \<Rightarrow> string \<Rightarrow> 's AskParametersJSON \<Rightarrow>
   'x thrown + 'j groq_request" where
  "groq_askJson_request h clientParameters input askParameters =
     (let updatedParameters' = updatedParameters askParameters input;
          model' = model clientParameters;
          schema' = schema askParameters;
          supportsStructuredOutputs = (model' \<in> set modelsSupportingStructuredOutputs)
      in andThen
           (if supportsStructuredOutputs
            then andThen (toJsonSchema h schema') (\<lambda>j. Inr (JsonSchemaFormat ''response'' j))
            else Inr JsonObjectFormat)
           (\<lambda>responseFormat.
              andThen
                (let baseParams = groq_createBaseCompletionParams clientParameters updatedParameters'
                 in if \<not> supportsStructuredOutputs
                    then andThen (toJsonSchema h schema')
                           (\<lambda>j. let jsonSchema = stringify h j;
                                    jsonInstructions =
                                      ''Answer with JSON only. Follow this exact schema:\<newline>\<newline>'' @ jsonSchema;
                                    instructions' =
                                      nullish (instructions updatedParameters')
                                        (clientInstructions clientParameters);
                                    combinedInstructions =
                                      (case instructions' of
                                         None \<Rightarrow> jsonInstructions
                                       | Some i \<Rightarrow>
                                           if i \<noteq> [] then i @ ''\<newline>\<newline>'' @ jsonInstructions
                                           else jsonInstructions)
                                in Inr (baseParams
                                     \<lparr>groq_messages :=
                                        groq_prepareMessages updatedParameters' (Some combinedInstructions)\<rparr>))
                    else Inr baseParams)
                (\<lambda>baseParams.
                   Inr (baseParams\<lparr>groq_stream := Some False,
                                   groq_response_format := Some responseFormat\<rparr>))))"

definition groq_askJson_try ::
  "('s, 'j, 'v, 'x) host \<Rightarrow> ('j groq_request \<Rightarrow> 'x thrown + chat_completion) \<Rightarrow>
   GroqModel ClientParameters \<Rightarrow> string \<Rightarrow> 's AskParametersJSON \<Rightarrow>
   'x thrown + (js_error + 'v)" where
  "groq_askJson_try h create clientParameters input askParameters =
     andThen (groq_askJson_request h clientParameters input askParameters)
       (\<lambda>request.
          andThen (create request)
            (\<lambda>completion.
               let content' = stripThinking (firstContent (choices completion))
               in if \<not> truthyString content'
                  then Inr (Inl (newError ''No response content received''))
                  else andThen (JSON_parse h (orEmpty content'))
                         (\<lambda>v. andThen (parse h (schema askParameters) v)
                                 (\<lambda>r. Inr (Inr r)))))"

definition groq_askJson ::
  "('s, 'j, 'v, 'x) host \<Rightarrow> ('j groq_request \<Rightarrow> 'x thrown + chat_completion) \<Rightarrow>
   GroqModel ClientParameters \<Rightarrow> string \<Rightarrow> 's AskParametersJSON \<Rightarrow>
   ('x, js_error + 'v) promise" where
  "groq_askJson h create clientParameters input askParameters =
     catchReturn (String h) (groq_askJson_try h create clientParameters input askParameters)"

text \<open>
  The fragments that the loop \<^verbatim>\<open>for await (const chunk of stream)\<close> yields:
  \<^verbatim>\<open>chunk.choices[0]?.delta?.content\<close> when it is truthy.
\<close>

definition chatFragments :: "chat_chunk list \<Rightarrow> js_string list" where
  "chatFragments cs =
     List.map_filter
       (\<lambda>chunk. let content' = firstContent (delta_choices chunk)
                in if truthyString content' then content' else None)
       cs"

definition groq_stream_request ::
  "GroqModel ClientParameters \<Rightarrow> string \<Rightarrow> 'a AskParameters_scheme \<Rightarrow> 'j groq_request" where
  "groq_stream_request clientParameters input askParameters =
     (groq_createBaseCompletionParams clientParameters (updatedParameters askParameters input))
       \<lparr>groq_stream := Some True\<rparr>"

definition groq_stream_run ::
  "('x \<Rightarrow> 'x thrown + string) \<Rightarrow> ('j groq_request \<Rightarrow> 'x thrown + ('x, chat_chunk) sdk_stream) \<Rightarrow>
   GroqModel ClientParameters \<Rightarrow> string \<Rightarrow> 'a AskParameters_scheme \<Rightarrow> 'x iteration" where
  "groq_stream_run str createStream clientParameters input askParameters =
     catchThrow str chatFragments
       (createStream (groq_stream_request clientParameters input askParameters))"

section \<open>The Claude client (claude.ts)\<close>

datatype ClaudeModel = Claude_sonnet_4_0 | Claude_opus_4_1 | Claude_3_5_haiku_latest

text \<open>The result of \<^verbatim>\<open>prepareMessages\<close>: the side-channel system text and the messages.\<close>

record claude_prepared =
  prepared_system :: "string option"
  prepared_messages :: "message list"

definition claude_mapRole :: "message \<Rightarrow> message" where
  "claude_mapRole msg =
     (if role msg = Function \<or> role msg = Tool \<or> role msg = System
      then \<lparr>role = User, content = content msg\<rparr>
      else \<lparr>role = role msg, content = content msg\<rparr>)"

definition claude_prepareMessages :: "message list \<Rightarrow> string option \<Rightarrow> claude_prepared" where
  "claude_prepareMessages msgs systemPrompt =
     (let systemIndex = findIndex (\<lambda>msg. role msg = System) msgs;
          systemMessage =
            (case systemIndex of
               Some i \<Rightarrow> map_option content (elementAt msgs i)
             | None \<Rightarrow> if truthyString systemPrompt then systemPrompt else None);
          preparedMessages =
            (case systemIndex of
               Some i \<Rightarrow> filterIndex (\<lambda>_ index. index \<noteq> i) msgs
             | None \<Rightarrow> msgs);
          mappedMessages = map claude_mapRole preparedMessages
      in \<lparr>prepared_system = systemMessage, prepared_messages = mappedMessages\<rparr>)"

record 'j claude_tool =
  tool_name :: string
  tool_description :: string
  input_schema :: 'j

record claude_tool_choice =
  choice_type :: string
  choice_name :: string

record 'j claude_request =
  claude_model :: ClaudeModel
  claude_system :: "string option"
  claude_messages :: "message list"
  claude_temperature :: "number option"
  claude_max_tokens :: number
  claude_top_p :: "number option"
  claude_top_k :: "number option"
  claude_stream :: "bool option"
  claude_tools :: "'j claude_tool list option"
  claude_tool_choice :: "claude_tool_choice option"

definition claude_createBaseCompletionParams ::
  "ClaudeModel ClientParameters \<Rightarrow> 'a AskParameters_scheme \<Rightarrow> 'j claude_request" where
  "claude_createBaseCompletionParams clientParameters askParameters =
     (let prepared =
            claude_prepareMessages
              (case messages askParameters of None \<Rightarrow> [] | Some ms \<Rightarrow> ms)
              (nullish (instructions askParameters) (clientInstructions clientParameters))
      in \<lparr>claude_model = model clientParameters,
          claude_system = prepared_system prepared,
          claude_messages = prepared_messages prepared,
          claude_temperature = temperature askParameters,
          claude_max_tokens = (case maxTokens askParameters of None \<Rightarrow> Num 4096 | Some n \<Rightarrow> n),
          claude_top_p = (if temperature askParameters \<noteq> None then None else topP askParameters),
          claude_top_k = topK askParameters,
          claude_stream = None,
          claude_tools = None,
          claude_tool_choice = None\<rparr>)"

text \<open>
  A block of \<^verbatim>\<open>completion.content\<close>: a text block, a tool use with its input, or
  a block of another type.
\<close>

datatype 'v content_block = TextBlock js_string | ToolUseBlock 'v | OtherBlock

record 'v claude_completion =
  content_blocks :: "'v content_block list"

definition claude_ask_request ::
  "ClaudeModel ClientParameters \<Rightarrow> string \<Rightarrow> 'a AskParameters_scheme \<Rightarrow> 'j claude_request" where
  "claude_ask_request clientParameters input askParameters =
     (claude_createBaseCompletionParams clientParameters (updatedParameters askParameters input))
       \<lparr>claude_stream := Some False\<rparr>"

definition claude_ask_try ::
  "('j claude_request \<Rightarrow> 'x thrown + 'v claude_completion) \<Rightarrow> ClaudeModel ClientParameters \<Rightarrow>
   string \<Rightarrow> 'a AskParameters_scheme \<Rightarrow> 'x thrown + (js_error + js_string)" where
  "claude_ask_try create clientParameters input askParameters =
     andThen (create (claude_ask_request clientParameters input askParameters))
       (\<lambda>completion.
          case elementAt (content_blocks completion) 0 of
            Some (TextBlock t) \<Rightarrow> Inr (Inr t)
          | _ \<Rightarrow> Inr (Inr []))"

definition claude_ask ::
  "('x \<Rightarrow> 'x thrown + string) \<Rightarrow> ('j claude_request \<Rightarrow> 'x thrown + 'v claude_completion) \<Rightarrow>
   ClaudeModel ClientParameters \<Rightarrow> string \<Rightarrow> 'a AskParameters_scheme \<Rightarrow>
   ('x, js_error + js_string) promise" where
  "claude_ask str create clientParameters input askParameters =
     catchReturn str (claude_ask_try create clientParameters input askParameters)"

definition claude_askJson_request ::
  "('s, 'j, 'v, 'x) host \<Rightarrow> ClaudeModel ClientParameters \<Rightarrow> string \<Rightarrow> 's AskParametersJSON \<Rightarrow>
   'x thrown + 'j claude_request" where
  "claude_askJson_request h clientParameters input askParameters =
     (let updatedParameters' = updatedParameters askParameters input;
          prepared =
            claude_prepareMessages
              (case messages updatedParameters' of None \<Rightarrow> [] | Some ms \<Rightarrow> ms)
              (nullish (instructions updatedParameters') (clientInstructions clientParameters));
          baseParams = claude_createBaseCompletionParams clientParameters updatedParameters'
      in andThen (toJsonSchema h (schema askParameters))
           (\<lambda>j. Inr (baseParams
                   \<lparr>claude_system := prepared_system prepared,
                    claude_messages := prepared_messages prepared,
                    claude_tools :=
                      Some [\<lparr>tool_name = ''json_response'',
                             tool_description = ''Respond with structured JSON data'',
                             input_schema = j\<rparr>],
                    claude_tool_choice :=
                      Some \<lparr>choice_type = ''tool'', choice_name = ''json_response''\<rparr>,
                    claude_stream := Some False\<rparr>)))"

definition claude_askJson_try ::
  "('s, 'j, 'v, 'x) host \<Rightarrow> ('j claude_request \<Rightarrow> 'x thrown + 'v claude_completion) \<Rightarrow>
   ClaudeModel ClientParameters \<Rightarrow> string \<Rightarrow> 's AskParametersJSON \<Rightarrow>
   'x thrown + (js_error + 'v)" where
  "claude_askJson_try h create clientParameters input askParameters =
     andThen (claude_askJson_request h clientParameters input askParameters)
       (\<lambda>request.
          andThen (create request)
            (\<lambda>completion.
               case elementAt (content_blocks completion) 0 of
                 Some (ToolUseBlock i) \<Rightarrow>
                   andThen (parse h (schema askParameters) i) (\<lambda>r. Inr (Inr r))
               | _ \<Rightarrow> Inr (Inl (newError ''No tool use response received''))))"

definition claude_askJson ::
  "('s, 'j, 'v, 'x) host \<Rightarrow> ('j claude_request \<Rightarrow> 'x thrown + 'v claude_completion) \<Rightarrow>
   ClaudeModel ClientParameters \<Rightarrow> string \<Rightarrow> 's AskParametersJSON \<Rightarrow>
   ('x, js_error + 'v) promise" where
  "claude_askJson h create clientParameters input askParameters =
     catchReturn (String h) (claude_askJson_try h create clientParameters input askParameters)"

text \<open>
  An event of Claude's stream: a \<^verbatim>\<open>content_block_delta\<close> whose delta is a
  \<^verbatim>\<open>text_delta\<close>, with its text, or any other event.
\<close>

datatype claude_event = TextDelta js_string | OtherEvent

definition claudeFragments :: "claude_event list \<Rightarrow> js_string list" where
  "claudeFragments cs =
     List.map_filter (\<lambda>chunk. case chunk of TextDelta t \<Rightarrow> Some t | OtherEvent \<Rightarrow> None) cs"

definition claude_stream_request ::
  "ClaudeModel ClientParameters \<Rightarrow> string \<Rightarrow> 'a AskParameters_scheme \<Rightarrow> 'j claude_request" where
  "claude_stream_request clientParameters input askParameters =
     (claude_createBaseCompletionParams clientParameters (updatedParameters askParameters input))
       \<lparr>claude_stream := Some True\<rparr>"

definition claude_stream_run ::
  "('x \<Rightarrow> 'x thrown + string) \<Rightarrow> ('j claude_request \<Rightarrow> 'x thrown + ('x, claude_event) sdk_stream) \<Rightarrow>
   ClaudeModel ClientParameters \<Rightarrow> string \<Rightarrow> 'a AskParameters_scheme \<Rightarrow> 'x iteration" where
  "claude_stream_run str createStream clientParameters input askParameters =
     catchThrow str claudeFragments
       (createStream (claude_stream_request clientParameters input askParameters))"

section \<open>The OpenAI client (OpenAIClient.ts)\<close>

text \<open>The source of this client is the second part of \<^verbatim>\<open>src/handleError.ts\<close>.\<close>

datatype OpenAiModel =
    Gpt_4_1 | Gpt_4_1_mini | Gpt_4_1_nano
  | Gpt_5 | Gpt_5_mini | Gpt_5_nano
  | O3 | O3_mini | O4_mini

definition modelsWithTemperatureRestrictions :: "OpenAiModel list" where
  "modelsWithTemperatureRestrictions = [Gpt_5, Gpt_5_mini, Gpt_5_nano, O3, O3_mini, O4_mini]"

definition thinkingModels :: "OpenAiModel list" where
  "thinkingModels = [Gpt_5, Gpt_5_mini, Gpt_5_nano, O3, O3_mini, O4_mini]"

text \<open>
  The first step of \<^verbatim>\<open>prepareMessages\<close> of the OpenAI and the Mistral client: the
  system prompt becomes a leading system message when it is truthy and no message
  has the role \<^verbatim>\<open>system\<close>; otherwise the messages stay as they are.
\<close>

definition prependSystemPrompt :: "message list \<Rightarrow> string option \<Rightarrow> message list" where
  "prependSystemPrompt msgs systemPrompt =
     (case systemPrompt of
        None \<Rightarrow> msgs
      | Some sp \<Rightarrow>
          if sp \<noteq> [] then
            (let hasSystemMessage = list_ex (\<lambda>msg. role msg = System) msgs
             in if \<not> hasSystemMessage then \<lparr>role = System, content = sp\<rparr> # msgs else msgs)
          else msgs)"

definition openai_prepareMessages :: "message list \<Rightarrow> string option \<Rightarrow> message list" where
  "openai_prepareMessages msgs systemPrompt =
     map mapUnsupportedToUser (prependSystemPrompt msgs systemPrompt)"

record 'j openai_request =
  openai_model :: OpenAiModel
  openai_messages :: "message list"
  openai_reasoning_effort :: "string option"
  openai_temperature :: "number option"
  openai_max_completion_tokens :: "number option"
  openai_top_p :: "number option"
  openai_presence_penalty :: "number option"
  openai_frequency_penalty :: "number option"
  openai_user :: "string option"
  openai_stream :: "bool option"
  openai_response_format :: "'j response_format option"

definition openai_createBaseCompletionParams ::
  "OpenAiModel ClientParameters \<Rightarrow> 'a AskParameters_scheme \<Rightarrow> 'j openai_request" where
  "openai_createBaseCompletionParams clientParameters askParameters =
     (let model' = model clientParameters;
          hasTemperatureRestriction = (model' \<in> set modelsWithTemperatureRestrictions);
          isThinkingModel = (model' \<in> set thinkingModels);
          reasoningEffort = nullish (thinking askParameters) (clientThinking clientParameters)
      in \<lparr>openai_model = model',
          openai_messages =
            openai_prepareMessages
              (case messages askParameters of None \<Rightarrow> [] | Some ms \<Rightarrow> ms)
              (nullish (instructions askParameters) (clientInstructions clientParameters)),
          openai_reasoning_effort =
            (if \<not> isThinkingModel then None
             else if reasoningEffort = Some Off then Some ''low''
             else map_option thinkingName reasoningEffort),
          openai_temperature =
            (if hasTemperatureRestriction then None else temperature askParameters),
          openai_max_completion_tokens = maxTokens askParameters,
          openai_top_p =
            (if hasTemperatureRestriction \<or> temperature askParameters \<noteq> None then None
             else topP askParameters),
          openai_presence_penalty =
            (if hasTemperatureRestriction then None else presencePenalty askParameters),
          openai_frequency_penalty =
            (if hasTemperatureRestriction then None else frequencyPenalty askParameters),
          openai_user = user askParameters,
          openai_stream = None,
          openai_response_format = None\<rparr>)"

definition openai_ask_request ::
  "OpenAiModel ClientParameters \<Rightarrow> string \<Rightarrow> 'a AskParameters_scheme \<Rightarrow> 'j openai_request" where
  "openai_ask_request clientParameters input askParameters =
     (openai_createBaseCompletionParams clientParameters (updatedParameters askParameters input))
       \<lparr>openai_stream := Some False\<rparr>"

definition openai_ask_try ::
  "('j openai_request \<Rightarrow> 'x thrown + chat_completion) \<Rightarrow> OpenAiModel ClientParameters \<Rightarrow>
   string \<Rightarrow> 'a AskParameters_scheme \<Rightarrow> 'x thrown + (js_error + js_string)" where
  "openai_ask_try create clientParameters input askParameters =
     andThen (create (openai_ask_request clientParameters input askParameters))
       (\<lambda>completion.
          let content' = firstContent (choices completion)
          in Inr (Inr (orEmpty content')))"

definition openai_ask ::
  "('x \<Rightarrow> 'x thrown + string) \<Rightarrow> ('j openai_request \<Rightarrow> 'x thrown + chat_completion) \<Rightarrow>
   OpenAiModel ClientParameters \<Rightarrow> string \<Rightarrow> 'a AskParameters_scheme \<Rightarrow>
   ('x, js_error + js_string) promise" where
  "openai_ask str create clientParameters input askParameters =
     catchReturn str (openai_ask_try create clientParameters input askParameters)"

definition openai_askJson_request ::
  "('s, 'j, 'v, 'x) host \<Rightarrow> OpenAiModel ClientParameters \<Rightarrow> string \<Rightarrow> 's AskParametersJSON \<Rightarrow>
   'x thrown + 'j openai_request" where
  "openai_askJson_request h clientParameters input askParameters =
     (let baseParams =
            openai_createBaseCompletionParams clientParameters (updatedParameters askParameters input)
      in andThen (toJsonSchema h (schema askParameters))
           (\<lambda>j. Inr (baseParams
                   \<lparr>openai_stream := Some False,
                    openai_response_format := Some (JsonSchemaFormat ''response'' j)\<rparr>)))"

definition openai_askJson_try ::
  "('s, 'j, 'v, 'x) host \<Rightarrow> ('j openai_request \<Rightarrow> 'x thrown + chat_completion) \<Rightarrow>
   OpenAiModel ClientParameters \<Rightarrow> string \<Rightarrow> 's AskParametersJSON \<Rightarrow>
   'x thrown + (js_error + 'v)" where
  "openai_askJson_try h create clientParameters input askParameters =
     andThen (openai_askJson_request h clientParameters input askParameters)
       (\<lambda>request.
          andThen (create request)
            (\<lambda>completion.
               let content' = firstContent (choices completion)
               in if \<not> truthyString content'
                  then Inr (Inl (newError ''No response content received''))
                  else andThen (JSON_parse h (orEmpty content'))
                         (\<lambda>v. andThen (parse h (schema askParameters) v)
                                 (\<lambda>r. Inr (Inr r)))))"

definition openai_askJson ::
  "('s, 'j, 'v, 'x) host \<Rightarrow> ('j openai_request \<Rightarrow> 'x thrown + chat_completion) \<Rightarrow>
   OpenAiModel ClientParameters \<Rightarrow> string \<Rightarrow> 's AskParametersJSON \<Rightarrow>
   ('x, js_error + 'v) promise" where
  "openai_askJson h create clientParameters input askParameters =
     catchReturn (String h) (openai_askJson_try h create clientParameters input askParameters)"

definition openai_stream_request ::
  "OpenAiModel ClientParameters \<Rightarrow> string \<Rightarrow> 'a AskParameters_scheme \<Rightarrow> 'j openai_request" where
  "openai_stream_request clientParameters input askParameters =
     (openai_createBaseCompletionParams clientParameters (updatedParameters askParameters input))
       \<lparr>openai_stream := Some True\<rparr>"

definition openai_stream_run ::
  "('x \<Rightarrow> 'x thrown + string) \<Rightarrow> ('j openai_request \<Rightarrow> 'x thrown + ('x, chat_chunk) sdk_stream) \<Rightarrow>
   OpenAiModel ClientParameters \<Rightarrow> string \<Rightarrow> 'a AskParameters_scheme \<Rightarrow> 'x iteration" where
  "openai_stream_run str createStream clientParameters input askParameters =
     catchThrow str chatFragments
       (createStream (openai_stream_request clientParameters input askParameters))"

section \<open>The Gemini client (GeminiClient.ts)\<close>

text \<open>The source of this client is the last part of \<^verbatim>\<open>src/index.ts\<close>.\<close>

datatype GeminiModel = Gemini_2_5_pro | Gemini_2_5_flash | Gemini_2_5_flash_lite

definition thinkingOnlyModels :: "GeminiModel list" where
  "thinkingOnlyModels = [Gemini_2_5_pro]"

text \<open>An entry of \<^verbatim>\<open>contents\<close>: its role is a string, each part is a text.\<close>

record gemini_content =
  gemini_role :: string
  parts :: "string list"

definition gemini_prepareMessages :: "message list \<Rightarrow> gemini_content list" where
  "gemini_prepareMessages msgs =
     map (\<lambda>msg.
            let role' = (if role msg = Assistant then ''model'' else ''user'')
            in if role msg = Function \<or> role msg = Tool
               then \<lparr>gemini_role = ''user'', parts = [content msg]\<rparr>
               else \<lparr>gemini_role = role', parts = [content msg]\<rparr>)
         (filter (\<lambda>msg. role msg \<noteq> System) msgs)"

definition extractSystemPrompt :: "message list \<Rightarrow> string option \<Rightarrow> string option" where
  "extractSystemPrompt msgs systemPrompt =
     (if truthyString systemPrompt then systemPrompt
      else (let systemMessage = find (\<lambda>msg. role msg = System) msgs
            in map_option content systemMessage))"

fun thinkingBudgetTokens :: "thinking \<Rightarrow> number" where
  "thinkingBudgetTokens Off = Num 0"
| "thinkingBudgetTokens Low = Num 512"
| "thinkingBudgetTokens Medium = Num 2048"
| "thinkingBudgetTokens High = Num 24576"

record thinking_config =
  includeThoughts :: bool
  thinkingBudget :: number

text \<open>
  \<^verbatim>\<open>GenerateContentConfig\<close>: a key that the code does not set is \<open>None\<close>. The last
  two keys are those \<^verbatim>\<open>askJson\<close> adds.
\<close>

record 'j gemini_config =
  config_temperature :: "number option"
  config_maxOutputTokens :: "number option"
  config_topP :: "number option"
  config_topK :: "number option"
  config_thinkingConfig :: "thinking_config option"
  config_systemInstruction :: "string option"
  config_responseMimeType :: "string option"
  config_responseJsonSchema :: "'j option"

definition createGenerationConfig ::
  "GeminiModel ClientParameters \<Rightarrow> 'a AskParameters_scheme \<Rightarrow> 'j gemini_config" where
  "createGenerationConfig clientParameters askParameters =
     (let reasoningEffort0 = nullish (thinking askParameters) (clientThinking clientParameters);
          reasoningEffort =
            (if reasoningEffort0 = Some Off \<and> model clientParameters \<in> set thinkingOnlyModels
             then Some Low else reasoningEffort0);
          systemInstruction =
            extractSystemPrompt
              (case messages askParameters of None \<Rightarrow> [] | Some ms \<Rightarrow> ms)
              (nullish (instructions askParameters) (clientInstructions clientParameters))
      in \<lparr>config_temperature =
            (if temperature askParameters \<noteq> None then temperature askParameters else None),
          config_maxOutputTokens =
            (if maxTokens askParameters \<noteq> None then maxTokens askParameters else None),
          config_topP =
            (if topP askParameters \<noteq> None \<and> temperature askParameters = None
             then topP askParameters else None),
          config_topK = (if topK askParameters \<noteq> None then topK askParameters else None),
          config_thinkingConfig =
            (case reasoningEffort of
               None \<Rightarrow> None
             | Some r \<Rightarrow> Some \<lparr>includeThoughts = False, thinkingBudget = thinkingBudgetTokens r\<rparr>),
          config_systemInstruction =
            (if truthyString systemInstruction then systemInstruction else None),
          config_responseMimeType = None,
          config_responseJsonSchema = None\<rparr>)"

record 'j gemini_params =
  gemini_model :: GeminiModel
  gemini_contents :: "gemini_content list"
  gemini_config :: "'j gemini_config"

text \<open>A response of Gemini: its \<^verbatim>\<open>text\<close>, which may be \<^verbatim>\<open>undefined\<close>.\<close>

record gemini_response =
  response_text :: "js_string option"

text \<open>
  The parameters of \<^verbatim>\<open>ask\<close> and of \<^verbatim>\<open>stream\<close>, which build them in the same
  way.
\<close>

definition gemini_ask_params ::
  "GeminiModel ClientParameters \<Rightarrow> string \<Rightarrow> 'a AskParameters_scheme \<Rightarrow> 'j gemini_params" where
  "gemini_ask_params clientParameters input askParameters =
     (let updatedParameters' = updatedParameters askParameters input;
          contents =
            gemini_prepareMessages
              (case messages updatedParameters' of None \<Rightarrow> [] | Some ms \<Rightarrow> ms)
      in \<lparr>gemini_model = model clientParameters,
          gemini_contents = contents,
          gemini_config = createGenerationConfig clientParameters updatedParameters'\<rparr>)"

definition gemini_ask_try ::
  "('j gemini_params \<Rightarrow> 'x thrown + gemini_response) \<Rightarrow> GeminiModel ClientParameters \<Rightarrow>
   string \<Rightarrow> 'a AskParameters_scheme \<Rightarrow> 'x thrown + (js_error + js_string)" where
  "gemini_ask_try generateContent clientParameters input askParameters =
     andThen (generateContent (gemini_ask_params clientParameters input askParameters))
       (\<lambda>response. Inr (Inr (trim (orEmpty (response_text response)))))"

definition gemini_ask ::
  "('x \<Rightarrow> 'x thrown + string) \<Rightarrow> ('j gemini_params \<Rightarrow> 'x thrown + gemini_response) \<Rightarrow>
   GeminiModel ClientParameters \<Rightarrow> string \<Rightarrow> 'a AskParameters_scheme \<Rightarrow>
   ('x, js_error + js_string) promise" where
  "gemini_ask str generateContent clientParameters input askParameters =
     catchReturn str (gemini_ask_try generateContent clientParameters input askParameters)"

definition gemini_askJson_params ::
  "('s, 'j, 'v, 'x) host \<Rightarrow> GeminiModel ClientParameters \<Rightarrow> string \<Rightarrow> 's AskParametersJSON \<Rightarrow>
   'x thrown + 'j gemini_params" where
  "gemini_askJson_params h clientParameters input askParameters =
     (let updatedParameters' = updatedParameters askParameters input;
          contents =
            gemini_prepareMessages
              (case messages updatedParameters' of None \<Rightarrow> [] | Some ms \<Rightarrow> ms);
          config = createGenerationConfig clientParameters updatedParameters'
      in andThen (toJsonSchema h (schema askParameters))
           (\<lambda>j. Inr \<lparr>gemini_model = model clientParameters,
                      gemini_contents = contents,
                      gemini_config =
                        config\<lparr>config_responseMimeType := Some ''application/json'',
                               config_responseJsonSchema := Some j\<rparr>\<rparr>))"

definition gemini_askJson_try ::
  "('s, 'j, 'v, 'x) host \<Rightarrow> ('j gemini_params \<Rightarrow> 'x thrown + gemini_response) \<Rightarrow>
   GeminiModel ClientParameters \<Rightarrow> string \<Rightarrow> 's AskParametersJSON \<Rightarrow>
   'x thrown + (js_error + 'v)" where
  "gemini_askJson_try h generateContent clientParameters input askParameters =
     andThen (gemini_askJson_params h clientParameters input askParameters)
       (\<lambda>params.
          andThen (generateContent params)
            (\<lambda>response.
               let content' = response_text response
               in if \<not> truthyString content'
                  then Inr (Inl (newError ''No response content received''))
                  else (let jsonContent = trim (orEmpty content')
                        in andThen (JSON_parse h jsonContent)
                             (\<lambda>v. andThen (parse h (schema askParameters) v)
                                     (\<lambda>r. Inr (Inr r))))))"

definition gemini_askJson ::
  "('s, 'j, 'v, 'x) host \<Rightarrow> ('j gemini_params \<Rightarrow> 'x thrown + gemini_response) \<Rightarrow>
   GeminiModel ClientParameters \<Rightarrow> string \<Rightarrow> 's AskParametersJSON \<Rightarrow>
   ('x, js_error + 'v) promise" where
  "gemini_askJson h generateContent clientParameters input askParameters =
     catchReturn (String h)
       (gemini_askJson_try h generateContent clientParameters input askParameters)"

text \<open>A chunk of Gemini's stream is yielded when its text is not \<^verbatim>\<open>undefined\<close>.\<close>

definition geminiFragments :: "gemini_response list \<Rightarrow> js_string list" where
  "geminiFragments cs = List.map_filter response_text cs"

definition gemini_stream_run ::
  "('x \<Rightarrow> 'x thrown + string) \<Rightarrow> ('j gemini_params \<Rightarrow> 'x thrown + ('x, gemini_response) sdk_stream) \<Rightarrow>
   GeminiModel ClientParameters \<Rightarrow> string \<Rightarrow> 'a AskParameters_scheme \<Rightarrow> 'x iteration" where
  "gemini_stream_run str generateContentStream clientParameters input askParameters =
     catchThrow str geminiFragments
       (generateContentStream (gemini_ask_params clientParameters input askParameters))"

section \<open>The Mistral client (mistral.ts)\<close>

datatype MistralModel =
    Magistral_medium_latest
  | Magistral_small_latest
  | Mistral_medium_latest
  | Mistral_large_latest
  | Ministral_3b_latest
  | Ministral_8b_latest
  | Open_mistral_nemo
  | Mistral_small_latest
  | Devstral_small_latest
  | Devstral_medium_latest
  | Mistral_saba_latest

definition mistral_mapRole :: "message \<Rightarrow> message" where
  "mistral_mapRole msg =
     (if role msg = Function
      then \<lparr>role = Tool, content = content msg\<rparr>
      else \<lparr>role = role msg, content = content msg\<rparr>)"

definition mistral_prepareMessages :: "message list \<Rightarrow> string option \<Rightarrow> message list" where
  "mistral_prepareMessages msgs systemPrompt =
     map mistral_mapRole (prependSystemPrompt msgs systemPrompt)"

record mistral_request =
  mistral_model :: MistralModel
  mistral_messages :: "message list"
  mistral_temperature :: "number option"
  mistral_maxTokens :: "number option"
  mistral_topP :: "number option"
  mistral_responseFormat :: "string option"

text \<open>
  The request of \<^verbatim>\<open>ask\<close> and \<^verbatim>\<open>stream\<close>, which build it in the same way, from
  the parameters of the caller and the messages with the input appended.
\<close>

definition mistral_request_of ::
  "MistralModel ClientParameters \<Rightarrow> 'a AskParameters_scheme \<Rightarrow> message list \<Rightarrow> mistral_request" where
  "mistral_request_of clientParameters askParameters updatedMessages =
     (let temperature' = temperature askParameters;
          topP' = (if temperature' = Some (Num 0) then None else topP askParameters)
      in \<lparr>mistral_model = model clientParameters,
          mistral_messages =
            mistral_prepareMessages updatedMessages
              (nullish (instructions askParameters) (clientInstructions clientParameters)),
          mistral_temperature = temperature',
          mistral_maxTokens = maxTokens askParameters,
          mistral_topP = topP',
          mistral_responseFormat = None\<rparr>)"

text \<open>
  The content of a message of Mistral: a string, a list of chunks, or
  \<^verbatim>\<open>null\<close>/\<^verbatim>\<open>undefined\<close>. A chunk is a text chunk or a chunk without \<^verbatim>\<open>text\<close>.
\<close>

datatype content_chunk = TextChunk js_string | OtherChunk

datatype mistral_content =
  ContentString js_string | ContentChunks "content_chunk list" | NoContent

record mistral_response =
  mistral_choices :: "mistral_content list"

text \<open>\<^verbatim>\<open>choices?.[0]?.message?.content\<close>.\<close>

definition mistral_firstContent :: "mistral_content list \<Rightarrow> mistral_content" where
  "mistral_firstContent cs = (case elementAt cs 0 of None \<Rightarrow> NoContent | Some c \<Rightarrow> c)"

text \<open>\<^verbatim>\<open>content.map((chunk) => chunk.text || "").join("")\<close>.\<close>

definition joinChunks :: "content_chunk list \<Rightarrow> js_string" where
  "joinChunks cs = concat (map (\<lambda>chunk. case chunk of TextChunk t \<Rightarrow> t | OtherChunk \<Rightarrow> []) cs)"

definition mistral_ask_request ::
  "MistralModel ClientParameters \<Rightarrow> string \<Rightarrow> 'a AskParameters_scheme \<Rightarrow> mistral_request" where
  "mistral_ask_request clientParameters input askParameters =
     mistral_request_of clientParameters askParameters
       (appendInput (messages askParameters) input)"

definition mistral_ask_try ::
  "(mistral_request \<Rightarrow> 'x thrown + mistral_response) \<Rightarrow> MistralModel ClientParameters \<Rightarrow>
   string \<Rightarrow> 'a AskParameters_scheme \<Rightarrow> 'x thrown + (js_error + js_string)" where
  "mistral_ask_try chatComplete clientParameters input askParameters =
     andThen (chatComplete (mistral_ask_request clientParameters input askParameters))
       (\<lambda>result.
          case mistral_firstContent (mistral_choices result) of
            ContentString s \<Rightarrow> Inr (Inr s)
          | ContentChunks cs \<Rightarrow> Inr (Inr (joinChunks cs))
          | NoContent \<Rightarrow> Inr (Inr []))"

definition mistral_ask ::
  "('x \<Rightarrow> 'x thrown + string) \<Rightarrow> (mistral_request \<Rightarrow> 'x thrown + mistral_response) \<Rightarrow>
   MistralModel ClientParameters \<Rightarrow> string \<Rightarrow> 'a AskParameters_scheme \<Rightarrow>
   ('x, js_error + js_string) promise" where
  "mistral_ask str chatComplete clientParameters input askParameters =
     catchReturn str (mistral_ask_try chatComplete clientParameters input askParameters)"

definition mistral_askJson_request ::
  "('s, 'j, 'v, 'x) host \<Rightarrow> MistralModel ClientParameters \<Rightarrow> string \<Rightarrow> 's AskParametersJSON \<Rightarrow>
   'x thrown + mistral_request" where
  "mistral_askJson_request h clientParameters input askParameters =
     andThen (toJsonSchema h (schema askParameters))
       (\<lambda>jsonSchema.
          let promptWithSchema =
                input @ ''\<newline>\<newline>You must respond with valid JSON that matches this schema:\<newline>''
                  @ stringify h jsonSchema
                  @ ''\<newline>\<newline>Respond ONLY with the JSON object, no additional text or markdown formatting.''
          in Inr ((mistral_request_of clientParameters askParameters
                     (appendInput (messages askParameters) promptWithSchema))
                    \<lparr>mistral_responseFormat := Some ''json_object''\<rparr>))"

definition mistral_askJson_try ::
  "('s, 'j, 'v, 'x) host \<Rightarrow> (mistral_request \<Rightarrow> 'x thrown + mistral_response) \<Rightarrow>
   MistralModel ClientParameters \<Rightarrow> string \<Rightarrow> 's AskParametersJSON \<Rightarrow>
   'x thrown + (js_error + 'v)" where
  "mistral_askJson_try h chatComplete clientParameters input askParameters =
     andThen (mistral_askJson_request h clientParameters input askParameters)
       (\<lambda>request.
          andThen (chatComplete request)
            (\<lambda>result.
               case (case mistral_firstContent (mistral_choices result) of
                       ContentString s \<Rightarrow> Some s
                     | ContentChunks cs \<Rightarrow> Some (joinChunks cs)
                     | NoContent \<Rightarrow> None) of
                 None \<Rightarrow> Inr (Inl (newError ''No response content received''))
               | Some contentStr \<Rightarrow>
                   if contentStr = []
                   then Inr (Inl (newError ''No response content received''))
                   else andThen (JSON_parse h contentStr)
                          (\<lambda>v. andThen (parse h (schema askParameters) v)
                                  (\<lambda>r. Inr (Inr r)))))"

definition mistral_askJson ::
  "('s, 'j, 'v, 'x) host \<Rightarrow> (mistral_request \<Rightarrow> 'x thrown + mistral_response) \<Rightarrow>
   MistralModel ClientParameters \<Rightarrow> string \<Rightarrow> 's AskParametersJSON \<Rightarrow>
   ('x, js_error + 'v) promise" where
  "mistral_askJson h chatComplete clientParameters input askParameters =
     catchReturn (String h)
       (mistral_askJson_try h chatComplete clientParameters input askParameters)"

text \<open>
  What one event of Mistral's stream yields: a string content as it is, the text
  of each text chunk of a list, nothing otherwise.
\<close>

definition mistralFragments :: "mistral_response list \<Rightarrow> js_string list" where
  "mistralFragments cs =
     concat (map (\<lambda>chunk.
                    case mistral_firstContent (mistral_choices chunk) of
                      ContentString s \<Rightarrow> [s]
                    | ContentChunks ks \<Rightarrow>
                        List.map_filter
                          (\<lambda>k. case k of TextChunk t \<Rightarrow> Some t | OtherChunk \<Rightarrow> None) ks
                    | NoContent \<Rightarrow> [])
                 cs)"

definition mistral_stream_run ::
  "('x \<Rightarrow> 'x thrown + string) \<Rightarrow> (mistral_request \<Rightarrow> 'x thrown + ('x, mistral_response) sdk_stream) \<Rightarrow>
   MistralModel ClientParameters \<Rightarrow> string \<Rightarrow> 'a AskParameters_scheme \<Rightarrow> 'x iteration" where
  "mistral_stream_run str chatStream clientParameters input askParameters =
     catchThrow str mistralFragments
       (chatStream (mistral_ask_request clientParameters input askParameters))"

section \<open>Properties\<close>

subsection \<open>A host for the concrete instances\<close>

text \<open>
  The theorems below hold for every host. Their instances at concrete inputs use a
  host over strings whose collaborators succeed and return their argument.
\<close>

definition idHost :: "(string, string, js_string, string) host" where
  "idHost =
     \<lparr>toJsonSchema = (\<lambda>s. Inr s), stringify = (\<lambda>j. j), JSON_parse = (\<lambda>s. Inr s),
      parse = (\<lambda>s v. Inr v), String = (\<lambda>x. Inr x)\<rparr>"

definition emptyAsk :: AskParameters where
  "emptyAsk =
     \<lparr>messages = None, temperature = None, maxTokens = None, topP = None, topK = None,
      presencePenalty = None, frequencyPenalty = None, instructions = None,
      thinking = None, user = None\<rparr>"

definition emptyAskJson :: "string AskParametersJSON" where
  "emptyAskJson =
     \<lparr>messages = None, temperature = None, maxTokens = None, topP = None, topK = None,
      presencePenalty = None, frequencyPenalty = None, instructions = None,
      thinking = None, user = None, schema = ''{}''\<rparr>"

definition clientOf :: "'m \<Rightarrow> 'm ClientParameters" where
  "clientOf m =
     \<lparr>apiKey = ''key'', baseUrl = None, clientInstructions = None, clientThinking = None,
      model = m\<rparr>"

text \<open>A conversation with a message of every role but \<^verbatim>\<open>user\<close>.\<close>

definition toolConversation :: "message list" where
  "toolConversation =
     [\<lparr>role = System, content = ''S''\<rparr>, \<lparr>role = Tool, content = ''t''\<rparr>,
      \<lparr>role = Function, content = ''f''\<rparr>, \<lparr>role = Assistant, content = ''a''\<rparr>]"

text \<open>A conversation with two system messages.\<close>

definition twoSystems :: "message list" where
  "twoSystems =
     [\<lparr>role = System, content = ''A''\<rparr>, \<lparr>role = User, content = ''u''\<rparr>,
      \<lparr>role = System, content = ''B''\<rparr>]"

text \<open>A conversation that starts with the system message \<open>A\<close>.\<close>

definition systemA :: "message list" where
  "systemA = [\<lparr>role = System, content = ''A''\<rparr>, \<lparr>role = User, content = ''u''\<rparr>]"

definition askSystemA :: AskParameters where
  "askSystemA = emptyAsk\<lparr>messages := Some systemA, instructions := Some ''B''\<rparr>"

text \<open>
  Failures for the concrete instances: an error object, a host whose
  \<^verbatim>\<open>toJsonSchema\<close> throws it, and a provider error.
\<close>

definition schemaError :: js_error where
  "schemaError = \<lparr>error_name = ''Error'', error_message = ''Unsupported schema''\<rparr>"

definition throwingHost :: "(string, string, js_string, string) host" where
  "throwingHost = idHost\<lparr>toJsonSchema := (\<lambda>s. Inl (ThrownError schemaError))\<rparr>"

definition apiError :: js_error where
  "apiError = \<lparr>error_name = ''APIError'', error_message = ''429 rate limit''\<rparr>"

text \<open>
  A response whose thinking block holds a closing mark of its own, and a response
  that has the marks but does not start with the opening one.
\<close>

definition thinkingText :: js_string where
  "thinkingText = jsString ''<think>a</think>b</think> c''"

definition plainText :: js_string where
  "plainText = jsString ''x<think>a</think> c''"

text \<open>
  A response whose answer follows the thinking block after white space above
  \<^verbatim>\<open>0xFF\<close> (an ideographic space, a byte order mark and a line separator), and
  whose answer has a code unit above \<^verbatim>\<open>0xFF\<close> too.
\<close>

definition wideText :: js_string where
  "wideText = jsString ''<think>a</think>'' @ [0x3000, 0xFEFF, 0x2028, 0x4F60]"

text \<open>
  Thrown values that are not errors, for the concrete instances: an object without
  prototype (\<^verbatim>\<open>Object.create(null)\<close>), for which \<^verbatim>\<open>String\<close> throws a
  \<^verbatim>\<open>TypeError\<close>, and a string, which \<^verbatim>\<open>String\<close> returns.
\<close>

datatype thrown_value = NullPrototypeObject | StringValue string

definition typeError :: js_error where
  "typeError =
     \<lparr>error_name = ''TypeError'', error_message = ''Cannot convert object to primitive value''\<rparr>"

fun stringOf :: "thrown_value \<Rightarrow> thrown_value thrown + string" where
  "stringOf NullPrototypeObject = Inl (ThrownError typeError)"
| "stringOf (StringValue s) = Inr s"

definition objectHost :: "(string, string, js_string, thrown_value) host" where
  "objectHost =
     \<lparr>toJsonSchema = (\<lambda>s. Inr s), stringify = (\<lambda>j. j), JSON_parse = (\<lambda>s. Inr s),
      parse = (\<lambda>s v. Inr v), String = stringOf\<rparr>"

section \<open>Properties\<close>

subsection \<open>The list primitives\<close>

lemma andThen_Inr_iff:
  "andThen r f = Inr y \<longleftrightarrow> (\<exists>a. r = Inr a \<and> f a = Inr y)"
  by (cases r) (simp_all add: andThen_def)

lemma andThen_simps [simp]:
  "andThen (Inl e) f = Inl e"
  "andThen (Inr a) f = f a"
  by (simp_all add: andThen_def)

lemma filterIndexFrom_above:
  "i < k \<Longrightarrow> filterIndexFrom k (\<lambda>_ index. index \<noteq> i) xs = xs"
  by (induction xs arbitrary: k) simp_all

lemma findIndexFrom_ge:
  "findIndexFrom k p xs = Some i \<Longrightarrow> k \<le> i"
  by (induction xs arbitrary: k) (auto split: if_splits dest: Suc_leD)

lemma findIndex_None_iff: "findIndexFrom k p xs = None \<longleftrightarrow> find p xs = None"
  by (induction xs arbitrary: k) simp_all

lemma elementAt_Cons [simp]:
  "elementAt (x # xs) 0 = Some x"
  "elementAt (x # xs) (Suc n) = elementAt xs n"
  by (simp_all add: elementAt_def)

lemma find_Some_holds: "find p xs = Some s \<Longrightarrow> p s"
  by (induction xs) (auto split: if_splits)

text \<open>
  Removing the element at the index that \<^verbatim>\<open>findIndex\<close> gives removes the first
  element that satisfies the predicate.
\<close>

lemma filterIndexFrom_findIndexFrom:
  "(case findIndexFrom k p xs of
      None \<Rightarrow> xs
    | Some i \<Rightarrow> filterIndexFrom k (\<lambda>_ index. index \<noteq> i) xs)
   = (case find p xs of None \<Rightarrow> xs | Some s \<Rightarrow> remove1 s xs)"
proof (induction xs arbitrary: k)
  case Nil
  show ?case by simp
next
  case (Cons x xs)
  show ?case
  proof (cases "p x")
    case True
    then show ?thesis by (simp add: filterIndexFrom_above)
  next
    case False
    show ?thesis
    proof (cases "findIndexFrom (Suc k) p xs")
      case None
      then have "find p xs = None" by (simp add: findIndex_None_iff)
      with None False show ?thesis by simp
    next
      case (Some i)
      then have "Suc k \<le> i" by (rule findIndexFrom_ge)
      then have ne: "k \<noteq> i" by simp
      from Some have "find p xs \<noteq> None" by (simp flip: findIndex_None_iff [of "Suc k"])
      then obtain s where s: "find p xs = Some s" by auto
      with Some Cons.IH [of "Suc k"]
      have eq: "filterIndexFrom (Suc k) (\<lambda>_ index. index \<noteq> i) xs = remove1 s xs"
        by simp
      from s have "p s" by (rule find_Some_holds)
      with False have "x \<noteq> s" by auto
      with False Some ne s eq show ?thesis by simp
    qed
  qed
qed

lemma elementAt_findIndexFrom:
  "(case findIndexFrom k p xs of None \<Rightarrow> None | Some i \<Rightarrow> elementAt xs (i - k)) = find p xs"
proof (induction xs arbitrary: k)
  case Nil
  show ?case by simp
next
  case (Cons x xs)
  show ?case
  proof (cases "p x")
    case True
    then show ?thesis by simp
  next
    case False
    show ?thesis
    proof (cases "findIndexFrom (Suc k) p xs")
      case None
      with Cons.IH [of "Suc k"] False show ?thesis by simp
    next
      case (Some i)
      then have "Suc k \<le> i" by (rule findIndexFrom_ge)
      then have "i - k = Suc (i - Suc k)" by simp
      with Some Cons.IH [of "Suc k"] False show ?thesis
        by simp
    qed
  qed
qed

text \<open>What \<^verbatim>\<open>prepareMessages\<close> of the Claude client computes, in terms of lists.\<close>

lemma claude_prepareMessages_eq:
  "claude_prepareMessages msgs systemPrompt =
     \<lparr>prepared_system =
        (case find (\<lambda>msg. role msg = System) msgs of
           Some s \<Rightarrow> Some (content s)
         | None \<Rightarrow> if truthyString systemPrompt then systemPrompt else None),
      prepared_messages =
        map claude_mapRole
          (case find (\<lambda>msg. role msg = System) msgs of
             None \<Rightarrow> msgs
           | Some s \<Rightarrow> remove1 s msgs)\<rparr>"
proof -
  let ?p = "\<lambda>msg. role msg = System"
  have m: "(case findIndex ?p msgs of
              Some i \<Rightarrow> filterIndex (\<lambda>_ index. index \<noteq> i) msgs
            | None \<Rightarrow> msgs)
           = (case find ?p msgs of None \<Rightarrow> msgs | Some s \<Rightarrow> remove1 s msgs)"
    using filterIndexFrom_findIndexFrom [where k = 0 and p = ?p and xs = msgs]
    by (simp add: findIndex_def filterIndex_def split: option.splits)
  have s: "(case findIndex ?p msgs of
              Some i \<Rightarrow> map_option content (elementAt msgs i)
            | None \<Rightarrow> if truthyString systemPrompt then systemPrompt else None)
           = (case find ?p msgs of
                Some s \<Rightarrow> Some (content s)
              | None \<Rightarrow> if truthyString systemPrompt then systemPrompt else None)"
    using elementAt_findIndexFrom [where k = 0 and p = ?p and xs = msgs]
      findIndex_None_iff [where k = 0 and p = ?p and xs = msgs]
    by (auto simp add: findIndex_def split: option.splits)
  show ?thesis
    unfolding claude_prepareMessages_def Let_def m s ..
qed

subsection \<open>Claude: the default of \<^verbatim>\<open>max_tokens\<close>\<close>

text \<open>
  Claim C10. The Claude client sends \<^verbatim>\<open>max_tokens = 4096\<close> in every request of
  \<^verbatim>\<open>ask\<close>, \<^verbatim>\<open>stream\<close> and \<^verbatim>\<open>askJson\<close> whose caller gives no \<^verbatim>\<open>maxTokens\<close>,
  and the value of the caller, unchanged, when there is one.
\<close>

theorem claude_max_tokens_default:
  "claude_max_tokens (claude_ask_request cp input (ap\<lparr>maxTokens := None\<rparr>)) = Num 4096
   \<and> claude_max_tokens (claude_ask_request cp input (ap\<lparr>maxTokens := Some n\<rparr>)) = n
   \<and> claude_max_tokens (claude_stream_request cp input (ap\<lparr>maxTokens := None\<rparr>)) = Num 4096
   \<and> claude_max_tokens (claude_stream_request cp input (ap\<lparr>maxTokens := Some n\<rparr>)) = n
   \<and> (claude_askJson_request h cp input (apj\<lparr>maxTokens := None\<rparr>) = Inr r
        \<longrightarrow> claude_max_tokens r = Num 4096)
   \<and> (claude_askJson_request h cp input (apj\<lparr>maxTokens := Some n\<rparr>) = Inr r'
        \<longrightarrow> claude_max_tokens r' = n)"
  by (auto simp add: claude_ask_request_def claude_stream_request_def claude_askJson_request_def
        claude_createBaseCompletionParams_def updatedParameters_def andThen_Inr_iff Let_def)

theorem claude_max_tokens_default_witness:
  "\<not> isl (claude_askJson_request idHost (clientOf Claude_sonnet_4_0) ''hi''
             (emptyAskJson\<lparr>maxTokens := None\<rparr>))
   \<and> claude_max_tokens
        (projr (claude_askJson_request idHost (clientOf Claude_sonnet_4_0) ''hi''
                  (emptyAskJson\<lparr>maxTokens := None\<rparr>))) = Num 4096
   \<and> \<not> isl (claude_askJson_request idHost (clientOf Claude_sonnet_4_0) ''hi''
               (emptyAskJson\<lparr>maxTokens := Some (Num 100)\<rparr>))
   \<and> claude_max_tokens
        (projr (claude_askJson_request idHost (clientOf Claude_sonnet_4_0) ''hi''
                  (emptyAskJson\<lparr>maxTokens := Some (Num 100)\<rparr>))) = Num 100"
proof -
  let ?q = "claude_askJson_request idHost (clientOf Claude_sonnet_4_0) ''hi''
              (emptyAskJson\<lparr>maxTokens := None\<rparr>)"
  let ?q' = "claude_askJson_request idHost (clientOf Claude_sonnet_4_0) ''hi''
               (emptyAskJson\<lparr>maxTokens := Some (Num 100)\<rparr>)"
  have a: "?q = Inr (projr ?q)" and b: "?q' = Inr (projr ?q')"
    by (simp_all add: claude_askJson_request_def idHost_def andThen_def Let_def)
  from a b
    claude_max_tokens_default [where h = idHost and cp = "clientOf Claude_sonnet_4_0"
      and input = "''hi''" and apj = emptyAskJson and r = "projr ?q" and r' = "projr ?q'"
      and n = "Num 100"]
  show ?thesis
    by (metis sum.disc(2))
qed

subsection \<open>OpenAI: the models with a locked temperature\<close>

lemma openai_base_locked:
  assumes "model cp \<in> set modelsWithTemperatureRestrictions"
  shows "openai_temperature (openai_createBaseCompletionParams cp ap) = None"
    and "openai_top_p (openai_createBaseCompletionParams cp ap) = None"
    and "openai_presence_penalty (openai_createBaseCompletionParams cp ap) = None"
    and "openai_frequency_penalty (openai_createBaseCompletionParams cp ap) = None"
  using assms by (simp_all add: openai_createBaseCompletionParams_def Let_def)

lemma openai_askJson_request_Inr:
  assumes "openai_askJson_request h cp input apj = Inr r"
  obtains j where "toJsonSchema h (schema apj) = Inr j"
    and "r = (openai_createBaseCompletionParams cp (updatedParameters apj input))
               \<lparr>openai_stream := Some False,
                openai_response_format := Some (JsonSchemaFormat ''response'' j)\<rparr>"
  using assms
  by (auto simp add: openai_askJson_request_def andThen_Inr_iff Let_def)

text \<open>
  Claim C6. For a model of \<^verbatim>\<open>modelsWithTemperatureRestrictions\<close> (\<^verbatim>\<open>gpt-5\<close>,
  \<^verbatim>\<open>gpt-5-mini\<close>, \<^verbatim>\<open>gpt-5-nano\<close>, \<^verbatim>\<open>o3\<close>, \<^verbatim>\<open>o3-mini\<close>, \<^verbatim>\<open>o4-mini\<close>) and
  every parameters of the caller, the requests that the OpenAI client builds for
  \<^verbatim>\<open>ask\<close>, \<^verbatim>\<open>stream\<close> and \<^verbatim>\<open>askJson\<close> carry no \<^verbatim>\<open>temperature\<close>, no
  \<^verbatim>\<open>top_p\<close>, no \<^verbatim>\<open>presence_penalty\<close> and no \<^verbatim>\<open>frequency_penalty\<close>.
\<close>

theorem openai_temperature_locked:
  assumes "model cp \<in> {Gpt_5, Gpt_5_mini, Gpt_5_nano, O3, O3_mini, O4_mini}"
  shows "openai_temperature (openai_ask_request cp input ap) = None
       \<and> openai_top_p (openai_ask_request cp input ap) = None
       \<and> openai_presence_penalty (openai_ask_request cp input ap) = None
       \<and> openai_frequency_penalty (openai_ask_request cp input ap) = None
       \<and> openai_temperature (openai_stream_request cp input ap) = None
       \<and> openai_top_p (openai_stream_request cp input ap) = None
       \<and> openai_presence_penalty (openai_stream_request cp input ap) = None
       \<and> openai_frequency_penalty (openai_stream_request cp input ap) = None
       \<and> (openai_askJson_request h cp input apj = Inr r \<longrightarrow>
            openai_temperature r = None \<and> openai_top_p r = None
            \<and> openai_presence_penalty r = None \<and> openai_frequency_penalty r = None)"
proof -
  from assms have locked: "model cp \<in> set modelsWithTemperatureRestrictions"
    by (simp add: modelsWithTemperatureRestrictions_def)
  have ask: "openai_temperature (openai_ask_request cp input ap) = None
       \<and> openai_top_p (openai_ask_request cp input ap) = None
       \<and> openai_presence_penalty (openai_ask_request cp input ap) = None
       \<and> openai_frequency_penalty (openai_ask_request cp input ap) = None"
    by (simp add: openai_ask_request_def openai_base_locked [OF locked])
  have stream: "openai_temperature (openai_stream_request cp input ap) = None
       \<and> openai_top_p (openai_stream_request cp input ap) = None
       \<and> openai_presence_penalty (openai_stream_request cp input ap) = None
       \<and> openai_frequency_penalty (openai_stream_request cp input ap) = None"
    by (simp add: openai_stream_request_def openai_base_locked [OF locked])
  have json: "openai_temperature r = None \<and> openai_top_p r = None
            \<and> openai_presence_penalty r = None \<and> openai_frequency_penalty r = None"
    if "openai_askJson_request h cp input apj = Inr r"
    using that by (rule openai_askJson_request_Inr) (simp add: openai_base_locked [OF locked])
  from ask stream json show ?thesis by blast
qed

theorem openai_temperature_locked_witness:
  "model (clientOf O4_mini) \<in> {Gpt_5, Gpt_5_mini, Gpt_5_nano, O3, O3_mini, O4_mini}
   \<and> openai_temperature (openai_ask_request (clientOf O4_mini) ''hi''
        (emptyAsk\<lparr>temperature := Some (Num (7/10)), topP := Some (Num (9/10)),
                  presencePenalty := Some (Num 1), frequencyPenalty := Some (Num (- 1))\<rparr>)
          :: string openai_request) = None
   \<and> openai_top_p (openai_ask_request (clientOf O4_mini) ''hi''
        (emptyAsk\<lparr>temperature := Some (Num (7/10)), topP := Some (Num (9/10)),
                  presencePenalty := Some (Num 1), frequencyPenalty := Some (Num (- 1))\<rparr>)
          :: string openai_request) = None
   \<and> \<not> isl (openai_askJson_request idHost (clientOf O4_mini) ''hi''
               (emptyAskJson\<lparr>topP := Some (Num (9/10)), presencePenalty := Some (Num 1)\<rparr>))
   \<and> openai_top_p (projr (openai_askJson_request idHost (clientOf O4_mini) ''hi''
               (emptyAskJson\<lparr>topP := Some (Num (9/10)), presencePenalty := Some (Num 1)\<rparr>))) = None
   \<and> openai_presence_penalty (projr (openai_askJson_request idHost (clientOf O4_mini) ''hi''
               (emptyAskJson\<lparr>topP := Some (Num (9/10)), presencePenalty := Some (Num 1)\<rparr>))) = None"
proof -
  let ?q = "openai_askJson_request idHost (clientOf O4_mini) ''hi''
              (emptyAskJson\<lparr>topP := Some (Num (9/10)), presencePenalty := Some (Num 1)\<rparr>)"
  have m: "model (clientOf O4_mini) \<in> {Gpt_5, Gpt_5_mini, Gpt_5_nano, O3, O3_mini, O4_mini}"
    by (simp add: clientOf_def)
  have q: "?q = Inr (projr ?q)"
    by (simp add: openai_askJson_request_def idHost_def andThen_def Let_def)
  from m q openai_temperature_locked [OF m, where h = idHost and input = "''hi''"
      and apj = "emptyAskJson\<lparr>topP := Some (Num (9/10)), presencePenalty := Some (Num 1)\<rparr>"
      and r = "projr ?q"]
  show ?thesis
    by (metis sum.disc(2))
qed

subsection \<open>Models without thinking\<close>

lemma groq_base_no_thinking:
  assumes "model cp \<in> {Llama_3_3_70b_versatile, Llama_3_1_8b_instant, Kimi_k2_instruct,
                        Llama_4_maverick_17b_128e_instruct, Llama_4_scout_17b_16e_instruct,
                        Deepseek_r1_distill_llama_70b}"
  shows "groq_reasoning_effort (groq_createBaseCompletionParams cp ap) = None"
    and "groq_include_reasoning (groq_createBaseCompletionParams cp ap) = None"
  using assms
  by (auto simp add: groq_createBaseCompletionParams_def Let_def split: option.splits)

lemma groq_askJson_request_fields:
  fixes h :: "('s, 'j, 'v, 'x) host"
  assumes "groq_askJson_request h cp input apj = Inr r"
  shows "groq_reasoning_effort r =
           groq_reasoning_effort
             (groq_createBaseCompletionParams cp (updatedParameters apj input) :: 'j groq_request)"
    and "groq_include_reasoning r =
           groq_include_reasoning
             (groq_createBaseCompletionParams cp (updatedParameters apj input) :: 'j groq_request)"
    and "groq_temperature r =
           groq_temperature
             (groq_createBaseCompletionParams cp (updatedParameters apj input) :: 'j groq_request)"
    and "groq_top_p r =
           groq_top_p
             (groq_createBaseCompletionParams cp (updatedParameters apj input) :: 'j groq_request)"
  using assms
  by (auto simp add: groq_askJson_request_def andThen_Inr_iff Let_def split: if_splits)

lemma openai_base_no_thinking:
  assumes "model cp \<notin> set thinkingModels"
  shows "openai_reasoning_effort (openai_createBaseCompletionParams cp ap) = None"
  using assms by (simp add: openai_createBaseCompletionParams_def Let_def)

lemma groq_askJson_request_isl:
  "isl (groq_askJson_request h cp input apj) = isl (toJsonSchema h (schema apj))"
  by (cases "toJsonSchema h (schema apj)")
     (simp_all add: groq_askJson_request_def andThen_def Let_def)

lemma openai_askJson_request_isl:
  "isl (openai_askJson_request h cp input apj) = isl (toJsonSchema h (schema apj))"
  by (cases "toJsonSchema h (schema apj)")
     (simp_all add: openai_askJson_request_def andThen_def Let_def)

lemma claude_askJson_request_isl:
  "isl (claude_askJson_request h cp input apj) = isl (toJsonSchema h (schema apj))"
  by (cases "toJsonSchema h (schema apj)") (simp_all add: claude_askJson_request_def Let_def)

lemma gemini_askJson_params_isl:
  "isl (gemini_askJson_params h cp input apj) = isl (toJsonSchema h (schema apj))"
  by (cases "toJsonSchema h (schema apj)") (simp_all add: gemini_askJson_params_def Let_def)

lemma mistral_askJson_request_isl:
  "isl (mistral_askJson_request h cp input apj) = isl (toJsonSchema h (schema apj))"
  by (cases "toJsonSchema h (schema apj)") (simp_all add: mistral_askJson_request_def Let_def)

text \<open>
  Claim C7. For a model that has no thinking (in the Groq client a model whose
  entry of \<^verbatim>\<open>getReasoningEffortByModel\<close> is \<^verbatim>\<open>() => undefined\<close>, in the OpenAI
  client a model outside \<^verbatim>\<open>thinkingModels\<close>), whatever thinking level the caller
  or the client gives, the requests of \<^verbatim>\<open>ask\<close>, \<^verbatim>\<open>stream\<close> and \<^verbatim>\<open>askJson\<close>
  carry no \<^verbatim>\<open>reasoning_effort\<close> and no \<^verbatim>\<open>include_reasoning\<close>. Building a
  request does not throw: the requests of \<^verbatim>\<open>ask\<close> and \<^verbatim>\<open>stream\<close> are always
  built, and the one of \<^verbatim>\<open>askJson\<close> fails exactly when \<^verbatim>\<open>toJsonSchema\<close> throws.
\<close>

theorem no_thinking_field_without_support:
  "(model gcp \<in> {Llama_3_3_70b_versatile, Llama_3_1_8b_instant, Kimi_k2_instruct,
                  Llama_4_maverick_17b_128e_instruct, Llama_4_scout_17b_16e_instruct,
                  Deepseek_r1_distill_llama_70b} \<longrightarrow>
      groq_reasoning_effort (groq_ask_request gcp input ap) = None
      \<and> groq_include_reasoning (groq_ask_request gcp input ap) = None
      \<and> groq_reasoning_effort (groq_stream_request gcp input ap) = None
      \<and> groq_include_reasoning (groq_stream_request gcp input ap) = None
      \<and> (groq_askJson_request h gcp input apj = Inr r \<longrightarrow>
            groq_reasoning_effort r = None \<and> groq_include_reasoning r = None))
   \<and> (model ocp \<notin> set thinkingModels \<longrightarrow>
      openai_reasoning_effort (openai_ask_request ocp input ap) = None
      \<and> openai_reasoning_effort (openai_stream_request ocp input ap) = None
      \<and> (openai_askJson_request h ocp input apj = Inr r' \<longrightarrow>
            openai_reasoning_effort r' = None))
   \<and> isl (groq_askJson_request h gcp input apj) = isl (toJsonSchema h (schema apj))
   \<and> isl (openai_askJson_request h ocp input apj) = isl (toJsonSchema h (schema apj))"
proof -
  have groq: "groq_reasoning_effort (groq_ask_request gcp input ap) = None
      \<and> groq_include_reasoning (groq_ask_request gcp input ap) = None
      \<and> groq_reasoning_effort (groq_stream_request gcp input ap) = None
      \<and> groq_include_reasoning (groq_stream_request gcp input ap) = None
      \<and> (groq_askJson_request h gcp input apj = Inr r \<longrightarrow>
            groq_reasoning_effort r = None \<and> groq_include_reasoning r = None)"
    if m: "model gcp \<in> {Llama_3_3_70b_versatile, Llama_3_1_8b_instant, Kimi_k2_instruct,
                  Llama_4_maverick_17b_128e_instruct, Llama_4_scout_17b_16e_instruct,
                  Deepseek_r1_distill_llama_70b}"
    using groq_askJson_request_fields(1,2) [of h gcp input apj r]
    by (simp add: groq_ask_request_def groq_stream_request_def groq_base_no_thinking [OF m])
  have openai: "openai_reasoning_effort (openai_ask_request ocp input ap) = None
      \<and> openai_reasoning_effort (openai_stream_request ocp input ap) = None
      \<and> (openai_askJson_request h ocp input apj = Inr r' \<longrightarrow>
            openai_reasoning_effort r' = None)"
    if m: "model ocp \<notin> set thinkingModels"
    by (auto simp add: openai_ask_request_def openai_stream_request_def
          openai_base_no_thinking [OF m] elim!: openai_askJson_request_Inr)
  from groq openai groq_askJson_request_isl openai_askJson_request_isl
  show ?thesis by blast
qed

theorem no_thinking_field_without_support_witness:
  "model (clientOf Llama_3_3_70b_versatile) \<in>
     {Llama_3_3_70b_versatile, Llama_3_1_8b_instant, Kimi_k2_instruct,
      Llama_4_maverick_17b_128e_instruct, Llama_4_scout_17b_16e_instruct,
      Deepseek_r1_distill_llama_70b}
   \<and> model (clientOf Gpt_4_1) \<notin> set thinkingModels
   \<and> groq_reasoning_effort (groq_ask_request (clientOf Llama_3_3_70b_versatile) ''Hello''
        (emptyAsk\<lparr>thinking := Some High\<rparr>) :: string groq_request) = None
   \<and> groq_include_reasoning (groq_ask_request (clientOf Llama_3_3_70b_versatile) ''Hello''
        (emptyAsk\<lparr>thinking := Some High\<rparr>) :: string groq_request) = None
   \<and> openai_reasoning_effort (openai_ask_request (clientOf Gpt_4_1) ''Hello''
        (emptyAsk\<lparr>thinking := Some High\<rparr>) :: string openai_request) = None
   \<and> \<not> isl (groq_askJson_request idHost (clientOf Llama_3_3_70b_versatile) ''Hello''
        (emptyAskJson\<lparr>thinking := Some High\<rparr>))
   \<and> groq_reasoning_effort (projr (groq_askJson_request idHost
        (clientOf Llama_3_3_70b_versatile) ''Hello'' (emptyAskJson\<lparr>thinking := Some High\<rparr>))) = None
   \<and> \<not> isl (openai_askJson_request idHost (clientOf Gpt_4_1) ''Hello''
        (emptyAskJson\<lparr>thinking := Some High\<rparr>))
   \<and> openai_reasoning_effort (projr (openai_askJson_request idHost
        (clientOf Gpt_4_1) ''Hello'' (emptyAskJson\<lparr>thinking := Some High\<rparr>))) = None"
proof -
  let ?g = "groq_askJson_request idHost (clientOf Llama_3_3_70b_versatile) ''Hello''
              (emptyAskJson\<lparr>thinking := Some High\<rparr>)"
  let ?o = "openai_askJson_request idHost (clientOf Gpt_4_1) ''Hello''
              (emptyAskJson\<lparr>thinking := Some High\<rparr>)"
  have mg: "model (clientOf Llama_3_3_70b_versatile) \<in>
     {Llama_3_3_70b_versatile, Llama_3_1_8b_instant, Kimi_k2_instruct,
      Llama_4_maverick_17b_128e_instruct, Llama_4_scout_17b_16e_instruct,
      Deepseek_r1_distill_llama_70b}"
    by (simp add: clientOf_def)
  have mo: "model (clientOf Gpt_4_1) \<notin> set thinkingModels"
    by (simp add: clientOf_def thinkingModels_def)
  have s: "toJsonSchema idHost (schema emptyAskJson) = Inr ''{}''"
    by (simp add: idHost_def emptyAskJson_def)
  note t = no_thinking_field_without_support [where gcp = "clientOf Llama_3_3_70b_versatile"
      and ocp = "clientOf Gpt_4_1" and h = idHost and input = "''Hello''"
      and ap = "emptyAsk\<lparr>thinking := Some High\<rparr>"
      and apj = "emptyAskJson\<lparr>thinking := Some High\<rparr>"
      and r = "projr ?g" and r' = "projr ?o"]
  have ig: "\<not> isl ?g" and io: "\<not> isl ?o"
    by (simp_all add: groq_askJson_request_isl openai_askJson_request_isl s)
  then have "?g = Inr (projr ?g)" and "?o = Inr (projr ?o)" by simp_all
  with t mg mo ig io show ?thesis by metis
qed

subsection \<open>\<^verbatim>\<open>topP\<close> when a temperature is set\<close>

lemma claude_askJson_request_Inr:
  assumes "claude_askJson_request h cp input apj = Inr r"
  obtains j where "toJsonSchema h (schema apj) = Inr j"
    and "r = (claude_createBaseCompletionParams cp (updatedParameters apj input))
               \<lparr>claude_system :=
                  prepared_system
                    (claude_prepareMessages (appendInput (messages apj) input)
                       (nullish (instructions apj) (clientInstructions cp))),
                claude_messages :=
                  prepared_messages
                    (claude_prepareMessages (appendInput (messages apj) input)
                       (nullish (instructions apj) (clientInstructions cp))),
                claude_tools :=
                  Some [\<lparr>tool_name = ''json_response'',
                         tool_description = ''Respond with structured JSON data'',
                         input_schema = j\<rparr>],
                claude_tool_choice :=
                  Some \<lparr>choice_type = ''tool'', choice_name = ''json_response''\<rparr>,
                claude_stream := Some False\<rparr>"
  using assms
  by (auto simp add: claude_askJson_request_def andThen_Inr_iff Let_def updatedParameters_def)

lemma claude_top_p_requests:
  "claude_top_p (claude_ask_request cp input ap) =
     (if temperature ap \<noteq> None then None else topP ap)"
  "claude_top_p (claude_stream_request cp input ap) =
     (if temperature ap \<noteq> None then None else topP ap)"
  "claude_askJson_request h cp input apj = Inr r \<Longrightarrow>
     claude_top_p r = (if temperature apj \<noteq> None then None else topP apj)"
  by (auto simp add: claude_ask_request_def claude_stream_request_def
        claude_createBaseCompletionParams_def updatedParameters_def Let_def
        elim!: claude_askJson_request_Inr)

lemma openai_top_p_requests:
  "openai_top_p (openai_ask_request cp input ap) =
     (if model cp \<in> set modelsWithTemperatureRestrictions \<or> temperature ap \<noteq> None
      then None else topP ap)"
  "openai_top_p (openai_stream_request cp input ap) =
     (if model cp \<in> set modelsWithTemperatureRestrictions \<or> temperature ap \<noteq> None
      then None else topP ap)"
  "openai_askJson_request h cp input apj = Inr r \<Longrightarrow>
     openai_top_p r =
       (if model cp \<in> set modelsWithTemperatureRestrictions \<or> temperature apj \<noteq> None
        then None else topP apj)"
  by (auto simp add: openai_ask_request_def openai_stream_request_def
        openai_createBaseCompletionParams_def updatedParameters_def Let_def
        elim!: openai_askJson_request_Inr)

lemma gemini_askJson_params_Inr:
  assumes "gemini_askJson_params h cp input apj = Inr r"
  obtains j where "toJsonSchema h (schema apj) = Inr j"
    and "r = \<lparr>gemini_model = model cp,
              gemini_contents = gemini_prepareMessages (appendInput (messages apj) input),
              gemini_config =
                (createGenerationConfig cp (updatedParameters apj input))
                  \<lparr>config_responseMimeType := Some ''application/json'',
                   config_responseJsonSchema := Some j\<rparr>\<rparr>"
  using assms
  by (auto simp add: gemini_askJson_params_def andThen_Inr_iff Let_def updatedParameters_def)

lemma gemini_top_p_requests:
  "config_topP (gemini_config (gemini_ask_params cp input ap)) =
     (if temperature ap \<noteq> None then None else topP ap)"
  "gemini_askJson_params h cp input apj = Inr r \<Longrightarrow>
     config_topP (gemini_config r) = (if temperature apj \<noteq> None then None else topP apj)"
  by (auto simp add: gemini_ask_params_def createGenerationConfig_def updatedParameters_def
        Let_def elim!: gemini_askJson_params_Inr)

lemma groq_top_p_requests:
  fixes h :: "('s, 'j, 'v, 'x) host"
  shows "groq_top_p (groq_ask_request cp input ap) =
     (if truthyNumber (temperature ap) then None else topP ap)"
  and "groq_top_p (groq_stream_request cp input ap) =
     (if truthyNumber (temperature ap) then None else topP ap)"
  and "groq_askJson_request h cp input apj = Inr r \<Longrightarrow>
     groq_top_p r = (if truthyNumber (temperature apj) then None else topP apj)"
  using groq_askJson_request_fields(4) [of h cp input apj r]
  by (simp_all add: groq_ask_request_def groq_stream_request_def
        groq_createBaseCompletionParams_def updatedParameters_def Let_def)

lemma mistral_askJson_request_Inr:
  assumes "mistral_askJson_request h cp input apj = Inr r"
  obtains prompt where
    "r = (mistral_request_of cp apj (appendInput (messages apj) prompt))
           \<lparr>mistral_responseFormat := Some ''json_object''\<rparr>"
  using assms
  by (auto simp add: mistral_askJson_request_def andThen_Inr_iff Let_def)

lemma mistral_top_p_requests:
  "mistral_topP (mistral_ask_request cp input ap) =
     (if temperature ap = Some (Num 0) then None else topP ap)"
  "mistral_askJson_request h cp input apj = Inr r \<Longrightarrow>
     mistral_topP r = (if temperature apj = Some (Num 0) then None else topP apj)"
  by (auto simp add: mistral_ask_request_def mistral_request_of_def Let_def
        elim!: mistral_askJson_request_Inr)

text \<open>
  The Claude, the OpenAI and the Gemini client follow the comment of the interface
  on \<^verbatim>\<open>topP\<close>, ``ignored if temperature is set'': whatever temperature the caller
  sets, their requests carry no \<^verbatim>\<open>topP\<close>.
\<close>

lemma siblings_omit_top_p:
  fixes h :: "('s, 'j, 'v, 'x) host"
  shows "temperature ap \<noteq> None \<Longrightarrow>
      claude_top_p (claude_ask_request cp_claude input ap) = None
      \<and> claude_top_p (claude_stream_request cp_claude input ap) = None
      \<and> openai_top_p (openai_ask_request cp_openai input ap) = None
      \<and> openai_top_p (openai_stream_request cp_openai input ap) = None
      \<and> config_topP (gemini_config (gemini_ask_params cp_gemini input ap)) = None"
    and "temperature apj \<noteq> None \<Longrightarrow>
      (claude_askJson_request h cp_claude input apj = Inr r_claude \<longrightarrow>
         claude_top_p r_claude = None)
      \<and> (openai_askJson_request h cp_openai input apj = Inr r_openai \<longrightarrow>
            openai_top_p r_openai = None)
      \<and> (gemini_askJson_params h cp_gemini input apj = Inr r_gemini \<longrightarrow>
            config_topP (gemini_config r_gemini) = None)"
  using claude_top_p_requests(3) [of h cp_claude input apj r_claude]
    openai_top_p_requests(3) [of h cp_openai input apj r_openai]
    gemini_top_p_requests(2) [of h cp_gemini input apj r_gemini]
  by (simp_all add: claude_top_p_requests(1,2) openai_top_p_requests(1,2)
        gemini_top_p_requests(1))

text \<open>
  Claim C2: when the caller sets a temperature, the request of every client omits
  \<^verbatim>\<open>topP\<close>. The Mistral client breaks it. With the temperature \<open>0.7\<close> and
  \<^verbatim>\<open>topP = 0.9\<close> its request carries both, where the requests of the Claude, the
  OpenAI and the Gemini client for the same parameters carry no \<^verbatim>\<open>topP\<close>: the
  Mistral client drops \<^verbatim>\<open>topP\<close> only when the temperature is \<open>0\<close>.
\<close>

theorem mistral_sends_top_p_beside_temperature:
  "mistral_temperature (mistral_ask_request (clientOf Mistral_large_latest) ''hi''
      (emptyAsk\<lparr>temperature := Some (Num (7/10)), topP := Some (Num (9/10))\<rparr>))
     = Some (Num (7/10))
   \<and> mistral_topP (mistral_ask_request (clientOf Mistral_large_latest) ''hi''
      (emptyAsk\<lparr>temperature := Some (Num (7/10)), topP := Some (Num (9/10))\<rparr>))
     = Some (Num (9/10))
   \<and> claude_top_p (claude_ask_request (clientOf Claude_opus_4_1) ''hi''
      (emptyAsk\<lparr>temperature := Some (Num (7/10)), topP := Some (Num (9/10))\<rparr>)
      :: string claude_request) = None
   \<and> openai_top_p (openai_ask_request (clientOf Gpt_4_1) ''hi''
      (emptyAsk\<lparr>temperature := Some (Num (7/10)), topP := Some (Num (9/10))\<rparr>)
      :: string openai_request) = None
   \<and> config_topP (gemini_config (gemini_ask_params (clientOf Gemini_2_5_flash) ''hi''
      (emptyAsk\<lparr>temperature := Some (Num (7/10)), topP := Some (Num (9/10))\<rparr>)
      :: string gemini_params)) = None
   \<and> mistral_topP (mistral_ask_request (clientOf Mistral_large_latest) ''hi''
      (emptyAsk\<lparr>temperature := Some (Num 0), topP := Some (Num (9/10))\<rparr>))
     = None"
  by (simp add: mistral_top_p_requests claude_top_p_requests openai_top_p_requests
        gemini_top_p_requests modelsWithTemperatureRestrictions_def clientOf_def
        mistral_ask_request_def mistral_request_of_def emptyAsk_def Let_def)

subsection \<open>The roles of the prepared messages\<close>

lemma filter_mapUnsupportedToUser:
  "filter (\<lambda>m. role m \<noteq> System) (map mapUnsupportedToUser xs) =
     map (\<lambda>m. if role m = Tool \<or> role m = Function
               then \<lparr>role = User, content = content m\<rparr> else m)
       (filter (\<lambda>m. role m \<noteq> System) xs)"
  by (induction xs) (auto simp add: mapUnsupportedToUser_def)

lemma filter_mistral_mapRole:
  "filter (\<lambda>m. role m \<noteq> System) (map mistral_mapRole xs) =
     map (\<lambda>m. if role m = Function then \<lparr>role = Tool, content = content m\<rparr> else m)
       (filter (\<lambda>m. role m \<noteq> System) xs)"
  by (induction xs) (auto simp add: mistral_mapRole_def)

lemma filter_append_to_system:
  "filter (\<lambda>m. role m \<noteq> System)
     (map (\<lambda>msg. if role msg = System then msg\<lparr>content := f msg\<rparr> else msg) xs) =
   filter (\<lambda>m. role m \<noteq> System) xs"
  by (induction xs) auto

lemma filter_prependSystemPrompt:
  "filter (\<lambda>m. role m \<noteq> System) (prependSystemPrompt msgs sp) =
     filter (\<lambda>m. role m \<noteq> System) msgs"
  by (simp add: prependSystemPrompt_def Let_def split: option.splits)

text \<open>The messages before the role mapping of the Groq client.\<close>

lemma groq_prepareMessages_cases:
  obtains pre where "groq_prepareMessages ap sp = map mapUnsupportedToUser pre"
    and "filter (\<lambda>m. role m \<noteq> System) pre =
         filter (\<lambda>m. role m \<noteq> System) (case messages ap of None \<Rightarrow> [] | Some ms \<Rightarrow> ms)"
proof (cases "messages ap")
  case None
  show ?thesis
    by (rule that [of "case sp of None \<Rightarrow> [] | Some s \<Rightarrow>
                         if s \<noteq> [] then [\<lparr>role = System, content = s\<rparr>] else []"])
       (simp_all add: groq_prepareMessages_def None Let_def split: option.splits)
next
  case (Some ms)
  show ?thesis
  proof (cases "truthyString sp \<and> \<not> list_ex (\<lambda>msg. role msg = System) ms")
    case True
    then obtain s where "sp = Some s" "s \<noteq> []" by (cases sp) auto
    with True show ?thesis
      by (intro that [of "\<lparr>role = System, content = s\<rparr> # ms"])
         (simp_all add: groq_prepareMessages_def Some Let_def)
  next
    case False
    show ?thesis
    proof (cases "truthyString sp")
      case True
      then obtain s where s: "sp = Some s" "s \<noteq> []" by (cases sp) auto
      with False show ?thesis
        by (intro that [of "map (\<lambda>msg. if role msg = System
                                       then msg\<lparr>content := content msg @ ''\<newline>\<newline>'' @ s\<rparr>
                                       else msg) ms"])
           (simp_all add: groq_prepareMessages_def Some Let_def filter_append_to_system)
    next
      case False
      then show ?thesis
        by (intro that [of ms])
           (auto simp add: groq_prepareMessages_def Some Let_def split: option.splits)
    qed
  qed
qed

lemma groq_prepareMessages_nonSystem:
  "filter (\<lambda>m. role m \<noteq> System) (groq_prepareMessages ap sp) =
     map (\<lambda>m. if role m = Tool \<or> role m = Function
               then \<lparr>role = User, content = content m\<rparr> else m)
       (filter (\<lambda>m. role m \<noteq> System) (case messages ap of None \<Rightarrow> [] | Some ms \<Rightarrow> ms))"
  by (rule groq_prepareMessages_cases [of ap sp]) (simp add: filter_mapUnsupportedToUser)

lemma role_mapUnsupportedToUser:
  "role (mapUnsupportedToUser m) \<in> {System, User, Assistant}"
  by (cases "role m") (simp_all add: mapUnsupportedToUser_def)

lemma groq_prepareMessages_roles:
  "m \<in> set (groq_prepareMessages ap sp) \<Longrightarrow> role m \<in> {System, User, Assistant}"
proof -
  assume "m \<in> set (groq_prepareMessages ap sp)"
  then obtain x where "m = mapUnsupportedToUser x"
    by (rule_tac groq_prepareMessages_cases [of ap sp]) auto
  then show ?thesis by (simp only: role_mapUnsupportedToUser)
qed

lemma openai_prepareMessages_roles:
  "m \<in> set (openai_prepareMessages msgs sp) \<Longrightarrow> role m \<in> {System, User, Assistant}"
proof -
  assume "m \<in> set (openai_prepareMessages msgs sp)"
  then obtain x where "m = mapUnsupportedToUser x"
    by (auto simp add: openai_prepareMessages_def)
  then show ?thesis by (simp only: role_mapUnsupportedToUser)
qed

lemma role_claude_mapRole: "role (claude_mapRole m) \<in> {User, Assistant}"
  by (cases "role m") (simp_all add: claude_mapRole_def)

lemma claude_prepareMessages_roles:
  "m \<in> set (prepared_messages (claude_prepareMessages msgs sp)) \<Longrightarrow> role m \<in> {User, Assistant}"
proof -
  assume "m \<in> set (prepared_messages (claude_prepareMessages msgs sp))"
  then obtain x where "m = claude_mapRole x"
    by (auto simp add: claude_prepareMessages_def Let_def)
  then show ?thesis by (simp only: role_claude_mapRole)
qed

lemma claude_mapRole_eq:
  "claude_mapRole =
     (\<lambda>m. if role m \<in> {Tool, Function, System}
           then \<lparr>role = User, content = content m\<rparr> else m)"
  by (rule ext) (simp add: claude_mapRole_def)

lemma gemini_prepareMessages_eq:
  "gemini_prepareMessages msgs =
     map (\<lambda>m. \<lparr>gemini_role = (if role m = Assistant then ''model'' else ''user''),
               parts = [content m]\<rparr>)
       (filter (\<lambda>m. role m \<noteq> System) msgs)"
  by (auto simp add: gemini_prepareMessages_def Let_def)

lemma role_mistral_mapRole: "role (mistral_mapRole m) \<in> {System, User, Assistant, Tool}"
  by (cases "role m") (simp_all add: mistral_mapRole_def)

lemma mistral_prepareMessages_roles:
  "m \<in> set (mistral_prepareMessages msgs sp) \<Longrightarrow> role m \<in> {System, User, Assistant, Tool}"
proof -
  assume "m \<in> set (mistral_prepareMessages msgs sp)"
  then obtain x where "m = mistral_mapRole x"
    by (auto simp add: mistral_prepareMessages_def)
  then show ?thesis by (simp only: role_mistral_mapRole)
qed

text \<open>
  The prepared lists as a whole: the leading system message, if one is added, and
  then the messages of the conversation, one for one and in their order.
\<close>

lemma mapUnsupportedToUser_eq:
  "mapUnsupportedToUser m =
     (if role m = Tool \<or> role m = Function then \<lparr>role = User, content = content m\<rparr> else m)"
  by (simp add: mapUnsupportedToUser_def)

lemma mistral_mapRole_eq:
  "mistral_mapRole m =
     (if role m = Function then \<lparr>role = Tool, content = content m\<rparr> else m)"
  by (simp add: mistral_mapRole_def)

lemma prependSystemPrompt_eq:
  "prependSystemPrompt msgs sp =
     (case sp of
        None \<Rightarrow> []
      | Some s \<Rightarrow> if s \<noteq> [] \<and> \<not> list_ex (\<lambda>m. role m = System) msgs
                  then [\<lparr>role = System, content = s\<rparr>] else [])
     @ msgs"
  by (simp add: prependSystemPrompt_def Let_def split: option.splits)

lemma openai_prepareMessages_eq:
  "openai_prepareMessages msgs sp =
     map mapUnsupportedToUser
       (case sp of
          None \<Rightarrow> []
        | Some s \<Rightarrow> if s \<noteq> [] \<and> \<not> list_ex (\<lambda>m. role m = System) msgs
                    then [\<lparr>role = System, content = s\<rparr>] else [])
     @ map mapUnsupportedToUser msgs"
  by (simp add: openai_prepareMessages_def prependSystemPrompt_eq)

lemma mistral_prepareMessages_eq:
  "mistral_prepareMessages msgs sp =
     map mistral_mapRole
       (case sp of
          None \<Rightarrow> []
        | Some s \<Rightarrow> if s \<noteq> [] \<and> \<not> list_ex (\<lambda>m. role m = System) msgs
                    then [\<lparr>role = System, content = s\<rparr>] else [])
     @ map mistral_mapRole msgs"
  by (simp add: mistral_prepareMessages_def prependSystemPrompt_eq)

lemma groq_prepareMessages_eq:
  "groq_prepareMessages ap sp =
     (case sp of
        None \<Rightarrow> []
      | Some s \<Rightarrow>
          if s \<noteq> [] \<and> \<not> list_ex (\<lambda>m. role m = System)
                              (case messages ap of None \<Rightarrow> [] | Some ms \<Rightarrow> ms)
          then [\<lparr>role = System, content = s\<rparr>] else [])
     @ map (\<lambda>m. if role m = Tool \<or> role m = Function
                 then \<lparr>role = User, content = content m\<rparr>
                 else if role m = System
                 then \<lparr>role = System,
                       content = content m @
                         (case sp of
                            None \<Rightarrow> []
                          | Some s \<Rightarrow> if s \<noteq> [] then ''\<newline>\<newline>'' @ s else [])\<rparr>
                 else m)
         (case messages ap of None \<Rightarrow> [] | Some ms \<Rightarrow> ms)"
proof (cases "messages ap")
  case None
  then show ?thesis
    by (simp add: groq_prepareMessages_def Let_def mapUnsupportedToUser_def split: option.splits)
next
  case (Some ms)
  show ?thesis
  proof (cases sp)
    case None
    then show ?thesis
      by (simp add: groq_prepareMessages_def Some Let_def mapUnsupportedToUser_def)
  next
    case sp: (Some s)
    show ?thesis
    proof (cases "s = []")
      case True
      then show ?thesis
        by (simp add: groq_prepareMessages_def Some sp Let_def mapUnsupportedToUser_def)
    next
      case False
      show ?thesis
      proof (cases "list_ex (\<lambda>m. role m = System) ms")
        case True
        then show ?thesis
          using False
          by (simp add: groq_prepareMessages_def Some sp Let_def mapUnsupportedToUser_def)
      next
        case no: False
        then have "\<forall>m \<in> set ms. role m \<noteq> System" by (simp add: list_ex_iff)
        then show ?thesis
          using False no
          by (simp add: groq_prepareMessages_def Some sp Let_def mapUnsupportedToUser_def)
      qed
    qed
  qed
qed

text \<open>
  Claim C5 fails on the Mistral client: a \<^verbatim>\<open>tool\<close> message stays a \<^verbatim>\<open>tool\<close>
  message and a \<^verbatim>\<open>function\<close> message becomes a \<^verbatim>\<open>tool\<close> message, neither a
  \<^verbatim>\<open>user\<close> message.
\<close>

theorem mistral_tool_roles_counterexample:
  "mistral_messages (mistral_ask_request (clientOf Mistral_large_latest) ''hi''
      (emptyAsk\<lparr>messages := Some [\<lparr>role = Tool, content = ''t''\<rparr>,
                                   \<lparr>role = Function, content = ''f''\<rparr>]\<rparr>))
   = [\<lparr>role = Tool, content = ''t''\<rparr>, \<lparr>role = Tool, content = ''f''\<rparr>,
      \<lparr>role = User, content = ''hi''\<rparr>]"
  by (simp add: mistral_ask_request_def mistral_request_of_def mistral_prepareMessages_def
        prependSystemPrompt_def mistral_mapRole_def appendInput_def emptyAsk_def clientOf_def Let_def)

text \<open>
  Claim C5, amended. The Groq, the OpenAI, the Claude and the Gemini client rewrite
  every \<^verbatim>\<open>tool\<close> and \<^verbatim>\<open>function\<close> message to the role \<^verbatim>\<open>user\<close>; the Mistral client
  rewrites every \<^verbatim>\<open>function\<close> message to the role \<^verbatim>\<open>tool\<close> and keeps a \<^verbatim>\<open>tool\<close>
  message. Every client keeps the content of these messages and the order of the
  whole conversation: the prepared list is the conversation mapped message by
  message, for Groq, OpenAI and Mistral after the system message made of the
  instructions when these are not empty and no message has the role \<^verbatim>\<open>system\<close>
  (Groq appends non-empty instructions to the content of every system message),
  for Claude without the first system message and with a later one as \<^verbatim>\<open>user\<close>,
  for Gemini without the system messages. The prepared list has only roles of the
  client's own set: \<^verbatim>\<open>system\<close>, \<^verbatim>\<open>user\<close>, \<^verbatim>\<open>assistant\<close> for Groq and OpenAI,
  \<^verbatim>\<open>user\<close>, \<^verbatim>\<open>assistant\<close> for Claude, \<^verbatim>\<open>user\<close>, \<^verbatim>\<open>model\<close> for Gemini, and
  \<^verbatim>\<open>system\<close>, \<^verbatim>\<open>user\<close>, \<^verbatim>\<open>assistant\<close>, \<^verbatim>\<open>tool\<close> for Mistral.
\<close>

theorem unsupported_roles_rewritten:
  "groq_prepareMessages ap sp =
     (case sp of
        None \<Rightarrow> []
      | Some s \<Rightarrow>
          if s \<noteq> [] \<and> \<not> list_ex (\<lambda>m. role m = System)
                              (case messages ap of None \<Rightarrow> [] | Some ms \<Rightarrow> ms)
          then [\<lparr>role = System, content = s\<rparr>] else [])
     @ map (\<lambda>m. if role m = Tool \<or> role m = Function
                 then \<lparr>role = User, content = content m\<rparr>
                 else if role m = System
                 then \<lparr>role = System,
                       content = content m @
                         (case sp of
                            None \<Rightarrow> []
                          | Some s \<Rightarrow> if s \<noteq> [] then ''\<newline>\<newline>'' @ s else [])\<rparr>
                 else m)
         (case messages ap of None \<Rightarrow> [] | Some ms \<Rightarrow> ms)
   \<and> (\<forall>m \<in> set (groq_prepareMessages ap sp). role m \<in> {System, User, Assistant})
   \<and> openai_prepareMessages msgs sp =
     (case sp of
        None \<Rightarrow> []
      | Some s \<Rightarrow> if s \<noteq> [] \<and> \<not> list_ex (\<lambda>m. role m = System) msgs
                  then [\<lparr>role = System, content = s\<rparr>] else [])
     @ map (\<lambda>m. if role m = Tool \<or> role m = Function
                 then \<lparr>role = User, content = content m\<rparr> else m) msgs
   \<and> (\<forall>m \<in> set (openai_prepareMessages msgs sp). role m \<in> {System, User, Assistant})
   \<and> prepared_messages (claude_prepareMessages msgs sp) =
     map (\<lambda>m. if role m \<in> {Tool, Function, System}
               then \<lparr>role = User, content = content m\<rparr> else m)
       (case find (\<lambda>m. role m = System) msgs of None \<Rightarrow> msgs | Some s \<Rightarrow> remove1 s msgs)
   \<and> (\<forall>m \<in> set (prepared_messages (claude_prepareMessages msgs sp)).
         role m \<in> {User, Assistant})
   \<and> gemini_prepareMessages msgs =
     map (\<lambda>m. \<lparr>gemini_role = (if role m = Assistant then ''model'' else ''user''),
               parts = [content m]\<rparr>)
       (filter (\<lambda>m. role m \<noteq> System) msgs)
   \<and> (\<forall>c \<in> set (gemini_prepareMessages msgs). gemini_role c \<in> {''user'', ''model''})
   \<and> mistral_prepareMessages msgs sp =
     (case sp of
        None \<Rightarrow> []
      | Some s \<Rightarrow> if s \<noteq> [] \<and> \<not> list_ex (\<lambda>m. role m = System) msgs
                  then [\<lparr>role = System, content = s\<rparr>] else [])
     @ map (\<lambda>m. if role m = Function then \<lparr>role = Tool, content = content m\<rparr> else m) msgs
   \<and> (\<forall>m \<in> set (mistral_prepareMessages msgs sp).
         role m \<in> {System, User, Assistant, Tool})"
proof -
  have openai: "openai_prepareMessages msgs sp =
     (case sp of
        None \<Rightarrow> []
      | Some s \<Rightarrow> if s \<noteq> [] \<and> \<not> list_ex (\<lambda>m. role m = System) msgs
                  then [\<lparr>role = System, content = s\<rparr>] else [])
     @ map (\<lambda>m. if role m = Tool \<or> role m = Function
                 then \<lparr>role = User, content = content m\<rparr> else m) msgs"
    by (simp add: openai_prepareMessages_eq mapUnsupportedToUser_eq split: option.splits)
  have claude: "prepared_messages (claude_prepareMessages msgs sp) =
     map (\<lambda>m. if role m \<in> {Tool, Function, System}
               then \<lparr>role = User, content = content m\<rparr> else m)
       (case find (\<lambda>m. role m = System) msgs of None \<Rightarrow> msgs | Some s \<Rightarrow> remove1 s msgs)"
    by (simp add: claude_prepareMessages_eq claude_mapRole_eq)
  have gemini: "\<forall>c \<in> set (gemini_prepareMessages msgs). gemini_role c \<in> {''user'', ''model''}"
    by (auto simp add: gemini_prepareMessages_eq)
  have mistral: "mistral_prepareMessages msgs sp =
     (case sp of
        None \<Rightarrow> []
      | Some s \<Rightarrow> if s \<noteq> [] \<and> \<not> list_ex (\<lambda>m. role m = System) msgs
                  then [\<lparr>role = System, content = s\<rparr>] else [])
     @ map (\<lambda>m. if role m = Function then \<lparr>role = Tool, content = content m\<rparr> else m) msgs"
    by (simp add: mistral_prepareMessages_eq mistral_mapRole_eq split: option.splits)
  from groq_prepareMessages_eq [of ap sp] groq_prepareMessages_roles [of _ ap sp]
    openai openai_prepareMessages_roles [of _ msgs sp]
    claude claude_prepareMessages_roles [of _ msgs sp]
    gemini_prepareMessages_eq [of msgs] gemini
    mistral mistral_prepareMessages_roles [of _ msgs sp]
  show ?thesis by blast
qed

theorem unsupported_roles_rewritten_witness:
  "\<lparr>role = User, content = ''t''\<rparr> \<in>
     set (groq_prepareMessages (emptyAsk\<lparr>messages := Some toolConversation\<rparr>) (Some ''B''))
   \<and> groq_prepareMessages (emptyAsk\<lparr>messages := Some toolConversation\<rparr>) (Some ''B'')
      = [\<lparr>role = System, content = ''S\<newline>\<newline>B''\<rparr>, \<lparr>role = User, content = ''t''\<rparr>,
         \<lparr>role = User, content = ''f''\<rparr>, \<lparr>role = Assistant, content = ''a''\<rparr>]
   \<and> \<lparr>role = User, content = ''t''\<rparr> \<in> set (openai_prepareMessages toolConversation (Some ''B''))
   \<and> openai_prepareMessages toolConversation (Some ''B'')
      = [\<lparr>role = System, content = ''S''\<rparr>, \<lparr>role = User, content = ''t''\<rparr>,
         \<lparr>role = User, content = ''f''\<rparr>, \<lparr>role = Assistant, content = ''a''\<rparr>]
   \<and> \<lparr>role = User, content = ''t''\<rparr> \<in>
       set (prepared_messages (claude_prepareMessages toolConversation (Some ''B'')))
   \<and> prepared_messages (claude_prepareMessages toolConversation (Some ''B''))
      = [\<lparr>role = User, content = ''t''\<rparr>, \<lparr>role = User, content = ''f''\<rparr>,
         \<lparr>role = Assistant, content = ''a''\<rparr>]
   \<and> \<lparr>gemini_role = ''user'', parts = [''t'']\<rparr> \<in> set (gemini_prepareMessages toolConversation)
   \<and> gemini_prepareMessages toolConversation
      = [\<lparr>gemini_role = ''user'', parts = [''t'']\<rparr>, \<lparr>gemini_role = ''user'', parts = [''f'']\<rparr>,
         \<lparr>gemini_role = ''model'', parts = [''a'']\<rparr>]
   \<and> \<lparr>role = Tool, content = ''t''\<rparr> \<in> set (mistral_prepareMessages toolConversation (Some ''B''))
   \<and> mistral_prepareMessages toolConversation (Some ''B'')
      = [\<lparr>role = System, content = ''S''\<rparr>, \<lparr>role = Tool, content = ''t''\<rparr>,
         \<lparr>role = Tool, content = ''f''\<rparr>, \<lparr>role = Assistant, content = ''a''\<rparr>]"
proof -
  note t = unsupported_roles_rewritten [where ap = "emptyAsk\<lparr>messages := Some toolConversation\<rparr>"
      and msgs = toolConversation and sp = "Some ''B''"]
  have m: "messages (emptyAsk\<lparr>messages := Some toolConversation\<rparr>) = Some toolConversation"
    by simp
  have f: "filter (\<lambda>m. role m \<noteq> System) toolConversation =
      [\<lparr>role = Tool, content = ''t''\<rparr>, \<lparr>role = Function, content = ''f''\<rparr>,
       \<lparr>role = Assistant, content = ''a''\<rparr>]"
    and s: "find (\<lambda>m. role m = System) toolConversation = Some \<lparr>role = System, content = ''S''\<rparr>"
    and r: "remove1 \<lparr>role = System, content = ''S''\<rparr> toolConversation =
      [\<lparr>role = Tool, content = ''t''\<rparr>, \<lparr>role = Function, content = ''f''\<rparr>,
       \<lparr>role = Assistant, content = ''a''\<rparr>]"
    and e: "list_ex (\<lambda>m. role m = System) toolConversation"
    by (simp_all add: toolConversation_def)
  have c: "toolConversation =
      [\<lparr>role = System, content = ''S''\<rparr>, \<lparr>role = Tool, content = ''t''\<rparr>,
       \<lparr>role = Function, content = ''f''\<rparr>, \<lparr>role = Assistant, content = ''a''\<rparr>]"
    by (simp add: toolConversation_def)
  have groq: "groq_prepareMessages (emptyAsk\<lparr>messages := Some toolConversation\<rparr>) (Some ''B'')
      = [\<lparr>role = System, content = ''S\<newline>\<newline>B''\<rparr>, \<lparr>role = User, content = ''t''\<rparr>,
         \<lparr>role = User, content = ''f''\<rparr>, \<lparr>role = Assistant, content = ''a''\<rparr>]"
    using t by (simp add: c)
  have openai: "openai_prepareMessages toolConversation (Some ''B'')
      = [\<lparr>role = System, content = ''S''\<rparr>, \<lparr>role = User, content = ''t''\<rparr>,
         \<lparr>role = User, content = ''f''\<rparr>, \<lparr>role = Assistant, content = ''a''\<rparr>]"
    using t by (simp add: c)
  have claude: "prepared_messages (claude_prepareMessages toolConversation (Some ''B''))
      = [\<lparr>role = User, content = ''t''\<rparr>, \<lparr>role = User, content = ''f''\<rparr>,
         \<lparr>role = Assistant, content = ''a''\<rparr>]"
    using t by (simp add: s r)
  have gemini: "gemini_prepareMessages toolConversation
      = [\<lparr>gemini_role = ''user'', parts = [''t'']\<rparr>, \<lparr>gemini_role = ''user'', parts = [''f'']\<rparr>,
         \<lparr>gemini_role = ''model'', parts = [''a'']\<rparr>]"
    using t by (simp add: f)
  have mistral: "mistral_prepareMessages toolConversation (Some ''B'')
      = [\<lparr>role = System, content = ''S''\<rparr>, \<lparr>role = Tool, content = ''t''\<rparr>,
         \<lparr>role = Tool, content = ''f''\<rparr>, \<lparr>role = Assistant, content = ''a''\<rparr>]"
    using t by (simp add: c)
  show ?thesis
    unfolding groq openai claude gemini mistral by simp
qed

subsection \<open>Several system messages\<close>

lemma filter_system_mapUnsupportedToUser:
  "filter (\<lambda>m. role m = System) (map mapUnsupportedToUser xs) =
     filter (\<lambda>m. role m = System) xs"
  by (induction xs) (auto simp add: mapUnsupportedToUser_def)

lemma filter_system_mistral_mapRole:
  "filter (\<lambda>m. role m = System) (map mistral_mapRole xs) =
     filter (\<lambda>m. role m = System) xs"
  by (induction xs) (auto simp add: mistral_mapRole_def)

lemma find_Some_list_ex: "find p xs = Some s \<Longrightarrow> list_ex p xs"
  by (induction xs) (auto split: if_splits)

lemma prependSystemPrompt_has_system:
  "list_ex (\<lambda>msg. role msg = System) msgs \<Longrightarrow> prependSystemPrompt msgs sp = msgs"
  by (simp add: prependSystemPrompt_def Let_def split: option.splits)

lemma filter_system_append:
  "filter (\<lambda>m. role m = System)
     (map (\<lambda>msg. if role msg = System then msg\<lparr>content := f msg\<rparr> else msg) xs) =
   map (\<lambda>msg. msg\<lparr>content := f msg\<rparr>) (filter (\<lambda>m. role m = System) xs)"
  by (induction xs) auto

text \<open>The Groq client on a conversation that has a system message.\<close>

lemma groq_prepareMessages_has_system:
  assumes "messages ap = Some msgs" and "list_ex (\<lambda>msg. role msg = System) msgs"
  shows "groq_prepareMessages ap None = map mapUnsupportedToUser msgs"
    and "groq_prepareMessages ap (Some []) = map mapUnsupportedToUser msgs"
    and "B \<noteq> [] \<Longrightarrow> groq_prepareMessages ap (Some B) =
           map mapUnsupportedToUser
             (map (\<lambda>msg. if role msg = System
                         then msg\<lparr>content := content msg @ ''\<newline>\<newline>'' @ B\<rparr>
                         else msg) msgs)"
  using assms by (simp_all add: groq_prepareMessages_def Let_def)

text \<open>
  Claim C4 fails on the Claude client: of two system messages \<open>A\<close> and \<open>B\<close> the
  system text is \<open>A\<close> alone, and \<open>B\<close> is sent as a user message.
\<close>

theorem claude_two_systems_counterexample:
  "claude_system (claude_ask_request (clientOf Claude_sonnet_4_0) ''hi''
      (emptyAsk\<lparr>messages := Some [\<lparr>role = System, content = ''A''\<rparr>,
                                   \<lparr>role = System, content = ''B''\<rparr>]\<rparr>)
      :: string claude_request) = Some ''A''
   \<and> claude_messages (claude_ask_request (clientOf Claude_sonnet_4_0) ''hi''
      (emptyAsk\<lparr>messages := Some [\<lparr>role = System, content = ''A''\<rparr>,
                                   \<lparr>role = System, content = ''B''\<rparr>]\<rparr>)
      :: string claude_request)
     = [\<lparr>role = User, content = ''B''\<rparr>, \<lparr>role = User, content = ''hi''\<rparr>]"
  by (simp add: claude_ask_request_def claude_createBaseCompletionParams_def
        updatedParameters_def appendInput_def claude_prepareMessages_eq claude_mapRole_def
        emptyAsk_def clientOf_def Let_def)

text \<open>
  Claim C4, amended. No client concatenates the system messages of a conversation.
  The Claude client takes the content of the first system message alone as the
  system text and sends every later one as a user message, in place. The Gemini
  client, when no instructions are given, takes the content of the first system
  message alone as the system instruction, and its contents have no entry for any
  system message. The Groq, the OpenAI and the Mistral client send every system
  message as a system message of its own, in order (the Groq client with the
  instructions appended to each, when there are instructions).
\<close>

theorem system_messages_not_concatenated:
  assumes "find (\<lambda>m. role m = System) msgs = Some s"
    and "messages ap = Some msgs"
  shows "prepared_system (claude_prepareMessages msgs sp) = Some (content s)
    \<and> prepared_messages (claude_prepareMessages msgs sp) =
        map (\<lambda>m. if role m \<in> {Tool, Function, System}
                  then \<lparr>role = User, content = content m\<rparr> else m)
          (remove1 s msgs)
    \<and> (\<not> truthyString sp \<longrightarrow> extractSystemPrompt msgs sp = Some (content s))
    \<and> gemini_prepareMessages msgs =
        map (\<lambda>m. \<lparr>gemini_role = (if role m = Assistant then ''model'' else ''user''),
                  parts = [content m]\<rparr>)
          (filter (\<lambda>m. role m \<noteq> System) msgs)
    \<and> filter (\<lambda>m. role m = System) (openai_prepareMessages msgs sp) =
        filter (\<lambda>m. role m = System) msgs
    \<and> filter (\<lambda>m. role m = System) (mistral_prepareMessages msgs sp) =
        filter (\<lambda>m. role m = System) msgs
    \<and> (\<not> truthyString sp \<longrightarrow>
          filter (\<lambda>m. role m = System) (groq_prepareMessages ap sp) =
            filter (\<lambda>m. role m = System) msgs)
    \<and> (sp = Some B \<and> B \<noteq> [] \<longrightarrow>
          filter (\<lambda>m. role m = System) (groq_prepareMessages ap sp) =
            map (\<lambda>m. m\<lparr>content := content m @ ''\<newline>\<newline>'' @ B\<rparr>)
              (filter (\<lambda>m. role m = System) msgs))"
proof -
  from assms(1) have ex: "list_ex (\<lambda>msg. role msg = System) msgs"
    by (rule find_Some_list_ex)
  have claude: "prepared_system (claude_prepareMessages msgs sp) = Some (content s)
    \<and> prepared_messages (claude_prepareMessages msgs sp) =
        map (\<lambda>m. if role m \<in> {Tool, Function, System}
                  then \<lparr>role = User, content = content m\<rparr> else m)
          (remove1 s msgs)"
    by (simp add: claude_prepareMessages_eq assms(1) claude_mapRole_eq)
  have gemini: "\<not> truthyString sp \<longrightarrow> extractSystemPrompt msgs sp = Some (content s)"
    by (simp add: extractSystemPrompt_def assms(1) Let_def)
  have openai: "filter (\<lambda>m. role m = System) (openai_prepareMessages msgs sp) =
        filter (\<lambda>m. role m = System) msgs"
    by (simp add: openai_prepareMessages_def prependSystemPrompt_has_system [OF ex]
          filter_system_mapUnsupportedToUser)
  have mistral: "filter (\<lambda>m. role m = System) (mistral_prepareMessages msgs sp) =
        filter (\<lambda>m. role m = System) msgs"
    by (simp add: mistral_prepareMessages_def prependSystemPrompt_has_system [OF ex]
          filter_system_mistral_mapRole)
  have groq0: "\<not> truthyString sp \<longrightarrow>
          filter (\<lambda>m. role m = System) (groq_prepareMessages ap sp) =
            filter (\<lambda>m. role m = System) msgs"
  proof (cases sp)
    case None
    then show ?thesis
      by (simp add: groq_prepareMessages_has_system(1) [OF assms(2) ex]
            filter_system_mapUnsupportedToUser)
  next
    case (Some b)
    then show ?thesis
      by (auto simp add: groq_prepareMessages_has_system(2) [OF assms(2) ex]
            filter_system_mapUnsupportedToUser)
  qed
  have groq1: "sp = Some B \<and> B \<noteq> [] \<longrightarrow>
          filter (\<lambda>m. role m = System) (groq_prepareMessages ap sp) =
            map (\<lambda>m. m\<lparr>content := content m @ ''\<newline>\<newline>'' @ B\<rparr>)
              (filter (\<lambda>m. role m = System) msgs)"
    by (auto simp add: groq_prepareMessages_has_system(3) [OF assms(2) ex]
          filter_system_mapUnsupportedToUser filter_system_append simp del: map_map)
  from claude gemini gemini_prepareMessages_eq [of msgs] openai mistral groq0 groq1
  show ?thesis by blast
qed

theorem system_messages_not_concatenated_witness:
  "find (\<lambda>m. role m = System) twoSystems = Some \<lparr>role = System, content = ''A''\<rparr>
   \<and> messages (emptyAsk\<lparr>messages := Some twoSystems\<rparr>) = Some twoSystems
   \<and> \<not> truthyString None
   \<and> prepared_system (claude_prepareMessages twoSystems None) = Some ''A''
   \<and> prepared_messages (claude_prepareMessages twoSystems None) =
       [\<lparr>role = User, content = ''u''\<rparr>, \<lparr>role = User, content = ''B''\<rparr>]
   \<and> extractSystemPrompt twoSystems None = Some ''A''
   \<and> gemini_prepareMessages twoSystems = [\<lparr>gemini_role = ''user'', parts = [''u'']\<rparr>]
   \<and> filter (\<lambda>m. role m = System) (openai_prepareMessages twoSystems None) =
       [\<lparr>role = System, content = ''A''\<rparr>, \<lparr>role = System, content = ''B''\<rparr>]
   \<and> filter (\<lambda>m. role m = System) (mistral_prepareMessages twoSystems None) =
       [\<lparr>role = System, content = ''A''\<rparr>, \<lparr>role = System, content = ''B''\<rparr>]
   \<and> filter (\<lambda>m. role m = System)
        (groq_prepareMessages (emptyAsk\<lparr>messages := Some twoSystems\<rparr>) None) =
       [\<lparr>role = System, content = ''A''\<rparr>, \<lparr>role = System, content = ''B''\<rparr>]
   \<and> filter (\<lambda>m. role m = System)
        (groq_prepareMessages (emptyAsk\<lparr>messages := Some twoSystems\<rparr>) (Some ''I'')) =
       [\<lparr>role = System, content = ''A\<newline>\<newline>I''\<rparr>,
        \<lparr>role = System, content = ''B\<newline>\<newline>I''\<rparr>]"
proof -
  have f: "find (\<lambda>m. role m = System) twoSystems = Some \<lparr>role = System, content = ''A''\<rparr>"
    and m: "messages (emptyAsk\<lparr>messages := Some twoSystems\<rparr>) = Some twoSystems"
    and r: "remove1 \<lparr>role = System, content = ''A''\<rparr> twoSystems =
      [\<lparr>role = User, content = ''u''\<rparr>, \<lparr>role = System, content = ''B''\<rparr>]"
    and n: "filter (\<lambda>m. role m \<noteq> System) twoSystems = [\<lparr>role = User, content = ''u''\<rparr>]"
    and y: "filter (\<lambda>m. role m = System) twoSystems =
      [\<lparr>role = System, content = ''A''\<rparr>, \<lparr>role = System, content = ''B''\<rparr>]"
    by (simp_all add: twoSystems_def)
  note none = system_messages_not_concatenated [OF f m, where sp = None]
  note some = system_messages_not_concatenated [OF f m, where sp = "Some ''I''" and B = "''I''"]
  from none have a: "prepared_system (claude_prepareMessages twoSystems None) = Some ''A''"
    "prepared_messages (claude_prepareMessages twoSystems None) =
       [\<lparr>role = User, content = ''u''\<rparr>, \<lparr>role = User, content = ''B''\<rparr>]"
    "extractSystemPrompt twoSystems None = Some ''A''"
    "gemini_prepareMessages twoSystems = [\<lparr>gemini_role = ''user'', parts = [''u'']\<rparr>]"
    "filter (\<lambda>m. role m = System) (openai_prepareMessages twoSystems None) =
       [\<lparr>role = System, content = ''A''\<rparr>, \<lparr>role = System, content = ''B''\<rparr>]"
    "filter (\<lambda>m. role m = System) (mistral_prepareMessages twoSystems None) =
       [\<lparr>role = System, content = ''A''\<rparr>, \<lparr>role = System, content = ''B''\<rparr>]"
    "filter (\<lambda>m. role m = System)
        (groq_prepareMessages (emptyAsk\<lparr>messages := Some twoSystems\<rparr>) None) =
       [\<lparr>role = System, content = ''A''\<rparr>, \<lparr>role = System, content = ''B''\<rparr>]"
    by (simp_all add: r n y)
  from some have b: "filter (\<lambda>m. role m = System)
        (groq_prepareMessages (emptyAsk\<lparr>messages := Some twoSystems\<rparr>) (Some ''I'')) =
       [\<lparr>role = System, content = ''A\<newline>\<newline>I''\<rparr>,
        \<lparr>role = System, content = ''B\<newline>\<newline>I''\<rparr>]"
    by (simp add: y)
  from f m a b show ?thesis by simp
qed

subsection \<open>A system message and instructions\<close>

lemma find_append_Some:
  "find p xs = Some s \<Longrightarrow> find p (xs @ ys) = Some s"
  by (induction xs) (auto split: if_splits)

lemma claude_request_system:
  assumes "find (\<lambda>m. role m = System) msgs = Some s" and "messages ap = Some msgs"
  shows "claude_system (claude_ask_request cp input ap) = Some (content s)"
    and "claude_system (claude_stream_request cp input ap) = Some (content s)"
  using find_append_Some [OF assms(1), of "[\<lparr>role = User, content = input\<rparr>]"] assms(2)
  by (simp_all add: claude_ask_request_def claude_stream_request_def
        claude_createBaseCompletionParams_def updatedParameters_def appendInput_def
        claude_prepareMessages_eq Let_def)

lemma gemini_request_system:
  assumes "nullish (instructions ap) (clientInstructions cp) = Some B" and "B \<noteq> []"
  shows "config_systemInstruction (gemini_config (gemini_ask_params cp input ap)) = Some B"
  using assms
  by (simp add: gemini_ask_params_def createGenerationConfig_def updatedParameters_def
        extractSystemPrompt_def Let_def)

text \<open>
  Claim C1 fails on the Claude client: with the system message \<open>A\<close> in the
  conversation and the instructions \<open>B\<close>, the system text of the request is \<open>A\<close>.
\<close>

theorem claude_system_with_instructions_counterexample:
  "claude_system (claude_ask_request (clientOf Claude_sonnet_4_0) ''hi''
      (emptyAsk\<lparr>messages := Some [\<lparr>role = System, content = ''A''\<rparr>],
                instructions := Some ''B''\<rparr>) :: string claude_request) = Some ''A''
   \<and> claude_system (claude_ask_request (clientOf Claude_sonnet_4_0) ''hi''
      (emptyAsk\<lparr>messages := Some [\<lparr>role = System, content = ''A''\<rparr>],
                instructions := Some ''B''\<rparr>) :: string claude_request)
     \<noteq> Some ''A\<newline>\<newline>B''"
  by (simp add: claude_ask_request_def claude_createBaseCompletionParams_def
        updatedParameters_def appendInput_def claude_prepareMessages_eq
        emptyAsk_def clientOf_def Let_def)

text \<open>
  Claim C1, amended. Let the conversation have a system message, the first one with
  the content \<open>A\<close>, and let the instructions \<open>B\<close> be given (not empty). The Claude
  client sends \<open>A\<close> as its system text and does not use \<open>B\<close>; the Gemini client
  sends \<open>B\<close> as its system instruction and does not use \<open>A\<close>; the messages of
  both have no system entry. Of the clients without a side channel, the Groq client
  appends a blank line and \<open>B\<close> to the content of every system message, and the
  OpenAI and the Mistral client leave the system messages as they are and do not
  send \<open>B\<close>.
\<close>

theorem system_message_with_instructions:
  assumes "find (\<lambda>m. role m = System) msgs = Some s"
    and "messages ap = Some msgs"
    and "nullish (instructions ap) (clientInstructions cp_gemini) = Some B"
    and "B \<noteq> []"
  shows "prepared_system (claude_prepareMessages msgs (Some B)) = Some (content s)
    \<and> claude_system (claude_ask_request cp_claude input ap :: 'j claude_request) = Some (content s)
    \<and> (\<forall>m \<in> set (prepared_messages (claude_prepareMessages msgs (Some B))). role m \<noteq> System)
    \<and> extractSystemPrompt msgs (Some B) = Some B
    \<and> config_systemInstruction
        (gemini_config (gemini_ask_params cp_gemini input ap :: 'k gemini_params)) = Some B
    \<and> (\<forall>c \<in> set (gemini_prepareMessages msgs). gemini_role c \<in> {''user'', ''model''})
    \<and> groq_prepareMessages ap (Some B) =
        map (\<lambda>m. if role m = System
                  then \<lparr>role = System, content = content m @ ''\<newline>\<newline>'' @ B\<rparr>
                  else if role m = Tool \<or> role m = Function
                  then \<lparr>role = User, content = content m\<rparr> else m) msgs
    \<and> openai_prepareMessages msgs (Some B) =
        map (\<lambda>m. if role m = Tool \<or> role m = Function
                  then \<lparr>role = User, content = content m\<rparr> else m) msgs
    \<and> mistral_prepareMessages msgs (Some B) =
        map (\<lambda>m. if role m = Function then \<lparr>role = Tool, content = content m\<rparr> else m) msgs"
proof -
  from assms(1) have ex: "list_ex (\<lambda>msg. role msg = System) msgs"
    by (rule find_Some_list_ex)
  have claude: "prepared_system (claude_prepareMessages msgs (Some B)) = Some (content s)"
    by (simp add: claude_prepareMessages_eq assms(1))
  have claude_roles:
    "\<forall>m \<in> set (prepared_messages (claude_prepareMessages msgs (Some B))). role m \<noteq> System"
    using claude_prepareMessages_roles [of _ msgs "Some B"] by fastforce
  have gemini: "extractSystemPrompt msgs (Some B) = Some B"
    using assms(4) by (simp add: extractSystemPrompt_def)
  have gemini_roles: "\<forall>c \<in> set (gemini_prepareMessages msgs). gemini_role c \<in> {''user'', ''model''}"
    by (auto simp add: gemini_prepareMessages_eq)
  have groq: "groq_prepareMessages ap (Some B) =
        map (\<lambda>m. if role m = System
                  then \<lparr>role = System, content = content m @ ''\<newline>\<newline>'' @ B\<rparr>
                  else if role m = Tool \<or> role m = Function
                  then \<lparr>role = User, content = content m\<rparr> else m) msgs"
    by (simp add: groq_prepareMessages_has_system(3) [OF assms(2) ex assms(4)]
          mapUnsupportedToUser_def)
  have openai: "openai_prepareMessages msgs (Some B) =
        map (\<lambda>m. if role m = Tool \<or> role m = Function
                  then \<lparr>role = User, content = content m\<rparr> else m) msgs"
    by (simp add: openai_prepareMessages_def prependSystemPrompt_has_system [OF ex]
          mapUnsupportedToUser_def)
  have mistral: "mistral_prepareMessages msgs (Some B) =
        map (\<lambda>m. if role m = Function then \<lparr>role = Tool, content = content m\<rparr> else m) msgs"
    by (simp add: mistral_prepareMessages_def prependSystemPrompt_has_system [OF ex]
          mistral_mapRole_def)
  from claude claude_request_system(1) [OF assms(1,2)] claude_roles gemini
    gemini_request_system [OF assms(3,4)] gemini_roles groq openai mistral
  show ?thesis by blast
qed

theorem system_message_with_instructions_witness:
  "find (\<lambda>m. role m = System) systemA = Some \<lparr>role = System, content = ''A''\<rparr>
   \<and> messages askSystemA = Some systemA
   \<and> nullish (instructions askSystemA) (clientInstructions (clientOf Gemini_2_5_flash)) = Some ''B''
   \<and> ''B'' \<noteq> []
   \<and> claude_system (claude_ask_request (clientOf Claude_sonnet_4_0) ''hi'' askSystemA
        :: string claude_request) = Some ''A''
   \<and> \<lparr>role = User, content = ''u''\<rparr> \<in>
       set (prepared_messages (claude_prepareMessages systemA (Some ''B'')))
   \<and> role \<lparr>role = User, content = ''u''\<rparr> \<noteq> System
   \<and> config_systemInstruction (gemini_config
        (gemini_ask_params (clientOf Gemini_2_5_flash) ''hi'' askSystemA
           :: string gemini_params)) = Some ''B''
   \<and> \<lparr>gemini_role = ''user'', parts = [''u'']\<rparr> \<in> set (gemini_prepareMessages systemA)
   \<and> groq_prepareMessages askSystemA (Some ''B'') =
       [\<lparr>role = System, content = ''A\<newline>\<newline>B''\<rparr>, \<lparr>role = User, content = ''u''\<rparr>]
   \<and> openai_prepareMessages systemA (Some ''B'') =
       [\<lparr>role = System, content = ''A''\<rparr>, \<lparr>role = User, content = ''u''\<rparr>]
   \<and> mistral_prepareMessages systemA (Some ''B'') =
       [\<lparr>role = System, content = ''A''\<rparr>, \<lparr>role = User, content = ''u''\<rparr>]"
proof -
  have f: "find (\<lambda>m. role m = System) systemA = Some \<lparr>role = System, content = ''A''\<rparr>"
    and m: "messages askSystemA = Some systemA"
    and i: "nullish (instructions askSystemA) (clientInstructions (clientOf Gemini_2_5_flash))
              = Some ''B''"
    and b: "''B'' \<noteq> []"
    by (simp_all add: systemA_def askSystemA_def emptyAsk_def)
  note t = system_message_with_instructions [OF f m i b,
      where cp_claude = "clientOf Claude_sonnet_4_0" and input = "''hi''"
        and 'j = string and 'k = string]
  have u: "\<lparr>role = User, content = ''u''\<rparr> \<in>
       set (prepared_messages (claude_prepareMessages systemA (Some ''B'')))"
    by (simp add: claude_prepareMessages_eq f systemA_def claude_mapRole_def)
  have g: "\<lparr>gemini_role = ''user'', parts = [''u'']\<rparr> \<in> set (gemini_prepareMessages systemA)"
    by (simp add: gemini_prepareMessages_eq systemA_def)
  from t u have r: "role \<lparr>role = User, content = ''u''\<rparr> \<noteq> System" by blast
  from t have c: "claude_system (claude_ask_request (clientOf Claude_sonnet_4_0) ''hi'' askSystemA
        :: string claude_request) = Some ''A''"
    "config_systemInstruction (gemini_config
        (gemini_ask_params (clientOf Gemini_2_5_flash) ''hi'' askSystemA
           :: string gemini_params)) = Some ''B''"
    by simp_all
  from t have p: "groq_prepareMessages askSystemA (Some ''B'') =
       [\<lparr>role = System, content = ''A\<newline>\<newline>B''\<rparr>, \<lparr>role = User, content = ''u''\<rparr>]"
    "openai_prepareMessages systemA (Some ''B'') =
       [\<lparr>role = System, content = ''A''\<rparr>, \<lparr>role = User, content = ''u''\<rparr>]"
    "mistral_prepareMessages systemA (Some ''B'') =
       [\<lparr>role = System, content = ''A''\<rparr>, \<lparr>role = User, content = ''u''\<rparr>]"
    by (simp_all add: systemA_def)
  from f m i b u g r c p show ?thesis by blast
qed

subsection \<open>Failures of the provider\<close>

text \<open>
  \<^verbatim>\<open>catch (error) { return handleError(error) }\<close> resolves to the error when
  \<^verbatim>\<open>handleError\<close> returns one, and rejects with what \<^verbatim>\<open>handleError\<close> throws
  when \<^verbatim>\<open>String\<close> throws on the caught value.
\<close>

lemma catchReturn_thrown:
  "handleError str t = Inr e \<Longrightarrow> catchReturn str (Inl t) = Resolved (Inl e)"
  by (simp add: catchReturn_def)

lemma catchReturn_rejected:
  "handleError str t = Inl t' \<Longrightarrow> catchReturn str (Inl t) = Rejected t'"
  by (simp add: catchReturn_def)

lemma catchReturn_returned: "catchReturn str (Inr r) = Resolved r"
  by (simp add: catchReturn_def)

lemma handleError_Error: "handleError str (ThrownError e) = Inr e"
  by simp

lemma handleError_value:
  "str v = Inr m \<Longrightarrow> handleError str (ThrownValue v) = Inr (newError m)"
  by simp

lemma handleError_throws:
  "str v = Inl t \<Longrightarrow> handleError str (ThrownValue v) = Inl t"
  by simp

lemma error_message_newError: "error_message (newError m) = m"
  by (simp add: newError_def)

lemma rethrown_Error:
  "handleError str t = Inr e \<Longrightarrow> rethrown str t = ThrownError e"
  by (simp add: rethrown_def)

lemma catchThrow_call:
  "catchThrow str fragments (Inl t) = \<lparr>yielded = [], raised = Some (rethrown str t)\<rparr>"
  by (simp add: catchThrow_def)

lemma catchThrow_iteration:
  "failure st = Some t \<Longrightarrow>
   catchThrow str fragments (Inr st) =
     \<lparr>yielded = fragments (chunks st), raised = Some (rethrown str t)\<rparr>"
  by (simp add: catchThrow_def)

text \<open>
  What every client does with a value \<open>t\<close> thrown by the provider SDK or by
  \<^verbatim>\<open>toJsonSchema\<close>, when \<^verbatim>\<open>handleError\<close> makes the error \<open>e\<close> of it: \<^verbatim>\<open>ask\<close> and
  \<^verbatim>\<open>askJson\<close> resolve to \<open>e\<close>, and \<^verbatim>\<open>stream\<close> throws \<open>e\<close> at the point of the
  iteration, at once when the call throws, and after the fragments already yielded
  when the stream of the provider throws.
\<close>

lemma groq_failures:
  fixes h :: "('s, 'j, 'v, 'x) host"
  shows "handleError str t = Inr e \<Longrightarrow> create_groq (groq_ask_request cp_groq input ap) = Inl t \<Longrightarrow>
      groq_ask str create_groq cp_groq input ap = Resolved (Inl e)"
    and "handleError (String h) t = Inr e \<Longrightarrow> groq_askJson_request h cp_groq input apj = Inr r_groq \<Longrightarrow>
      create_groq r_groq = Inl t \<Longrightarrow>
      groq_askJson h create_groq cp_groq input apj = Resolved (Inl e)"
    and "handleError (String h) t = Inr e \<Longrightarrow> toJsonSchema h (schema apj) = Inl t \<Longrightarrow>
      groq_askJson h create_groq cp_groq input apj = Resolved (Inl e)"
    and "handleError str t = Inr e \<Longrightarrow> stream_groq (groq_stream_request cp_groq input ap) = Inl t \<Longrightarrow>
      groq_stream_run str stream_groq cp_groq input ap =
        \<lparr>yielded = [], raised = Some (ThrownError e)\<rparr>"
    and "handleError str t = Inr e \<Longrightarrow> stream_groq (groq_stream_request cp_groq input ap) = Inr st_groq \<Longrightarrow>
      failure st_groq = Some t \<Longrightarrow>
      groq_stream_run str stream_groq cp_groq input ap =
        \<lparr>yielded = chatFragments (chunks st_groq), raised = Some (ThrownError e)\<rparr>"
  by (auto simp add: groq_ask_def groq_ask_try_def groq_askJson_def groq_askJson_try_def
        groq_askJson_request_def groq_stream_run_def catchReturn_thrown rethrown_Error
        catchThrow_call catchThrow_iteration Let_def)

lemma claude_failures:
  fixes h :: "('s, 'j, 'v, 'x) host"
  shows "handleError str t = Inr e \<Longrightarrow> create_claude (claude_ask_request cp_claude input ap) = Inl t \<Longrightarrow>
      claude_ask str create_claude cp_claude input ap = Resolved (Inl e)"
    and "handleError (String h) t = Inr e \<Longrightarrow> claude_askJson_request h cp_claude input apj = Inr r_claude \<Longrightarrow>
      create_claude r_claude = Inl t \<Longrightarrow>
      claude_askJson h create_claude cp_claude input apj = Resolved (Inl e)"
    and "handleError (String h) t = Inr e \<Longrightarrow> toJsonSchema h (schema apj) = Inl t \<Longrightarrow>
      claude_askJson h create_claude cp_claude input apj = Resolved (Inl e)"
    and "handleError str t = Inr e \<Longrightarrow> stream_claude (claude_stream_request cp_claude input ap) = Inl t \<Longrightarrow>
      claude_stream_run str stream_claude cp_claude input ap =
        \<lparr>yielded = [], raised = Some (ThrownError e)\<rparr>"
    and "handleError str t = Inr e \<Longrightarrow> stream_claude (claude_stream_request cp_claude input ap) = Inr st_claude \<Longrightarrow>
      failure st_claude = Some t \<Longrightarrow>
      claude_stream_run str stream_claude cp_claude input ap =
        \<lparr>yielded = claudeFragments (chunks st_claude), raised = Some (ThrownError e)\<rparr>"
  by (auto simp add: claude_ask_def claude_ask_try_def claude_askJson_def claude_askJson_try_def
        claude_askJson_request_def claude_stream_run_def catchReturn_thrown rethrown_Error
        catchThrow_call catchThrow_iteration Let_def)

lemma openai_failures:
  fixes h :: "('s, 'j, 'v, 'x) host"
  shows "handleError str t = Inr e \<Longrightarrow> create_openai (openai_ask_request cp_openai input ap) = Inl t \<Longrightarrow>
      openai_ask str create_openai cp_openai input ap = Resolved (Inl e)"
    and "handleError (String h) t = Inr e \<Longrightarrow> openai_askJson_request h cp_openai input apj = Inr r_openai \<Longrightarrow>
      create_openai r_openai = Inl t \<Longrightarrow>
      openai_askJson h create_openai cp_openai input apj = Resolved (Inl e)"
    and "handleError (String h) t = Inr e \<Longrightarrow> toJsonSchema h (schema apj) = Inl t \<Longrightarrow>
      openai_askJson h create_openai cp_openai input apj = Resolved (Inl e)"
    and "handleError str t = Inr e \<Longrightarrow> stream_openai (openai_stream_request cp_openai input ap) = Inl t \<Longrightarrow>
      openai_stream_run str stream_openai cp_openai input ap =
        \<lparr>yielded = [], raised = Some (ThrownError e)\<rparr>"
    and "handleError str t = Inr e \<Longrightarrow> stream_openai (openai_stream_request cp_openai input ap) = Inr st_openai \<Longrightarrow>
      failure st_openai = Some t \<Longrightarrow>
      openai_stream_run str stream_openai cp_openai input ap =
        \<lparr>yielded = chatFragments (chunks st_openai), raised = Some (ThrownError e)\<rparr>"
  by (auto simp add: openai_ask_def openai_ask_try_def openai_askJson_def openai_askJson_try_def
        openai_askJson_request_def openai_stream_run_def catchReturn_thrown rethrown_Error
        catchThrow_call catchThrow_iteration Let_def)

lemma gemini_failures:
  fixes h :: "('s, 'j, 'v, 'x) host"
  shows "handleError str t = Inr e \<Longrightarrow> create_gemini (gemini_ask_params cp_gemini input ap) = Inl t \<Longrightarrow>
      gemini_ask str create_gemini cp_gemini input ap = Resolved (Inl e)"
    and "handleError (String h) t = Inr e \<Longrightarrow> gemini_askJson_params h cp_gemini input apj = Inr r_gemini \<Longrightarrow>
      create_gemini r_gemini = Inl t \<Longrightarrow>
      gemini_askJson h create_gemini cp_gemini input apj = Resolved (Inl e)"
    and "handleError (String h) t = Inr e \<Longrightarrow> toJsonSchema h (schema apj) = Inl t \<Longrightarrow>
      gemini_askJson h create_gemini cp_gemini input apj = Resolved (Inl e)"
    and "handleError str t = Inr e \<Longrightarrow> stream_gemini (gemini_ask_params cp_gemini input ap) = Inl t \<Longrightarrow>
      gemini_stream_run str stream_gemini cp_gemini input ap =
        \<lparr>yielded = [], raised = Some (ThrownError e)\<rparr>"
    and "handleError str t = Inr e \<Longrightarrow> stream_gemini (gemini_ask_params cp_gemini input ap) = Inr st_gemini \<Longrightarrow>
      failure st_gemini = Some t \<Longrightarrow>
      gemini_stream_run str stream_gemini cp_gemini input ap =
        \<lparr>yielded = geminiFragments (chunks st_gemini), raised = Some (ThrownError e)\<rparr>"
  by (auto simp add: gemini_ask_def gemini_ask_try_def gemini_askJson_def gemini_askJson_try_def
        gemini_askJson_params_def gemini_stream_run_def catchReturn_thrown rethrown_Error
        catchThrow_call catchThrow_iteration Let_def)

lemma mistral_failures:
  fixes h :: "('s, 'j, 'v, 'x) host"
  shows "handleError str t = Inr e \<Longrightarrow> create_mistral (mistral_ask_request cp_mistral input ap) = Inl t \<Longrightarrow>
      mistral_ask str create_mistral cp_mistral input ap = Resolved (Inl e)"
    and "handleError (String h) t = Inr e \<Longrightarrow> mistral_askJson_request h cp_mistral input apj = Inr r_mistral \<Longrightarrow>
      create_mistral r_mistral = Inl t \<Longrightarrow>
      mistral_askJson h create_mistral cp_mistral input apj = Resolved (Inl e)"
    and "handleError (String h) t = Inr e \<Longrightarrow> toJsonSchema h (schema apj) = Inl t \<Longrightarrow>
      mistral_askJson h create_mistral cp_mistral input apj = Resolved (Inl e)"
    and "handleError str t = Inr e \<Longrightarrow> stream_mistral (mistral_ask_request cp_mistral input ap) = Inl t \<Longrightarrow>
      mistral_stream_run str stream_mistral cp_mistral input ap =
        \<lparr>yielded = [], raised = Some (ThrownError e)\<rparr>"
    and "handleError str t = Inr e \<Longrightarrow> stream_mistral (mistral_ask_request cp_mistral input ap) = Inr st_mistral \<Longrightarrow>
      failure st_mistral = Some t \<Longrightarrow>
      mistral_stream_run str stream_mistral cp_mistral input ap =
        \<lparr>yielded = mistralFragments (chunks st_mistral), raised = Some (ThrownError e)\<rparr>"
  by (auto simp add: mistral_ask_def mistral_ask_try_def mistral_askJson_def mistral_askJson_try_def
        mistral_askJson_request_def mistral_stream_run_def catchReturn_thrown rethrown_Error
        catchThrow_call catchThrow_iteration Let_def)

text \<open>
  When \<^verbatim>\<open>handleError\<close> throws on the value thrown by the provider SDK, \<^verbatim>\<open>ask\<close>
  and \<^verbatim>\<open>askJson\<close> reject with what it throws.
\<close>

lemma groq_failures_rejected:
  fixes h :: "('s, 'j, 'v, 'x) host"
  shows "handleError str t = Inl t' \<Longrightarrow> create_groq (groq_ask_request cp_groq input ap) = Inl t \<Longrightarrow>
      groq_ask str create_groq cp_groq input ap = Rejected t'"
    and "handleError (String h) t = Inl t' \<Longrightarrow> groq_askJson_request h cp_groq input apj = Inr r_groq \<Longrightarrow>
      create_groq r_groq = Inl t \<Longrightarrow>
      groq_askJson h create_groq cp_groq input apj = Rejected t'"
  by (simp_all add: groq_ask_def groq_ask_try_def groq_askJson_def groq_askJson_try_def
        catchReturn_rejected Let_def)

lemma claude_failures_rejected:
  fixes h :: "('s, 'j, 'v, 'x) host"
  shows "handleError str t = Inl t' \<Longrightarrow> create_claude (claude_ask_request cp_claude input ap) = Inl t \<Longrightarrow>
      claude_ask str create_claude cp_claude input ap = Rejected t'"
    and "handleError (String h) t = Inl t' \<Longrightarrow> claude_askJson_request h cp_claude input apj = Inr r_claude \<Longrightarrow>
      create_claude r_claude = Inl t \<Longrightarrow>
      claude_askJson h create_claude cp_claude input apj = Rejected t'"
  by (simp_all add: claude_ask_def claude_ask_try_def claude_askJson_def claude_askJson_try_def
        catchReturn_rejected Let_def)

lemma openai_failures_rejected:
  fixes h :: "('s, 'j, 'v, 'x) host"
  shows "handleError str t = Inl t' \<Longrightarrow> create_openai (openai_ask_request cp_openai input ap) = Inl t \<Longrightarrow>
      openai_ask str create_openai cp_openai input ap = Rejected t'"
    and "handleError (String h) t = Inl t' \<Longrightarrow> openai_askJson_request h cp_openai input apj = Inr r_openai \<Longrightarrow>
      create_openai r_openai = Inl t \<Longrightarrow>
      openai_askJson h create_openai cp_openai input apj = Rejected t'"
  by (simp_all add: openai_ask_def openai_ask_try_def openai_askJson_def openai_askJson_try_def
        catchReturn_rejected Let_def)

lemma gemini_failures_rejected:
  fixes h :: "('s, 'j, 'v, 'x) host"
  shows "handleError str t = Inl t' \<Longrightarrow> create_gemini (gemini_ask_params cp_gemini input ap) = Inl t \<Longrightarrow>
      gemini_ask str create_gemini cp_gemini input ap = Rejected t'"
    and "handleError (String h) t = Inl t' \<Longrightarrow> gemini_askJson_params h cp_gemini input apj = Inr r_gemini \<Longrightarrow>
      create_gemini r_gemini = Inl t \<Longrightarrow>
      gemini_askJson h create_gemini cp_gemini input apj = Rejected t'"
  by (simp_all add: gemini_ask_def gemini_ask_try_def gemini_askJson_def gemini_askJson_try_def
        catchReturn_rejected Let_def)

lemma mistral_failures_rejected:
  fixes h :: "('s, 'j, 'v, 'x) host"
  shows "handleError str t = Inl t' \<Longrightarrow> create_mistral (mistral_ask_request cp_mistral input ap) = Inl t \<Longrightarrow>
      mistral_ask str create_mistral cp_mistral input ap = Rejected t'"
    and "handleError (String h) t = Inl t' \<Longrightarrow> mistral_askJson_request h cp_mistral input apj = Inr r_mistral \<Longrightarrow>
      create_mistral r_mistral = Inl t \<Longrightarrow>
      mistral_askJson h create_mistral cp_mistral input apj = Rejected t'"
  by (simp_all add: mistral_ask_def mistral_ask_try_def mistral_askJson_def mistral_askJson_try_def
        catchReturn_rejected Let_def)

text \<open>
  Claim C3: for every value that the call of the provider SDK throws, \<^verbatim>\<open>ask\<close> and
  \<^verbatim>\<open>askJson\<close> never throw and resolve to an error. The clients break it where
  \<^verbatim>\<open>String\<close> throws on the thrown value. When the call throws an object without
  prototype, \<^verbatim>\<open>Object.create(null)\<close>, \<^verbatim>\<open>String(error)\<close> in \<^verbatim>\<open>handleError\<close> throws a
  \<^verbatim>\<open>TypeError\<close> inside the \<^verbatim>\<open>catch\<close> block, and \<^verbatim>\<open>ask\<close> and \<^verbatim>\<open>askJson\<close> of
  every client reject with it, where a thrown string is returned as an error.
\<close>

theorem provider_failure_rejects:
  "handleError stringOf (ThrownValue NullPrototypeObject) = Inl (ThrownError typeError)
   \<and> groq_ask stringOf ((\<lambda>_. Inl (ThrownValue NullPrototypeObject)) :: string groq_request \<Rightarrow> thrown_value thrown + chat_completion) (clientOf Qwen3_32b) ''hi'' emptyAsk
       = Rejected (ThrownError typeError)
   \<and> groq_askJson objectHost ((\<lambda>_. Inl (ThrownValue NullPrototypeObject)) :: string groq_request \<Rightarrow> thrown_value thrown + chat_completion) (clientOf Qwen3_32b) ''hi'' emptyAskJson
       = Rejected (ThrownError typeError)
   \<and> claude_ask stringOf ((\<lambda>_. Inl (ThrownValue NullPrototypeObject)) :: string claude_request \<Rightarrow> thrown_value thrown + js_string claude_completion) (clientOf Claude_sonnet_4_0) ''hi'' emptyAsk
       = Rejected (ThrownError typeError)
   \<and> claude_askJson objectHost ((\<lambda>_. Inl (ThrownValue NullPrototypeObject)) :: string claude_request \<Rightarrow> thrown_value thrown + js_string claude_completion) (clientOf Claude_sonnet_4_0) ''hi'' emptyAskJson
       = Rejected (ThrownError typeError)
   \<and> openai_ask stringOf ((\<lambda>_. Inl (ThrownValue NullPrototypeObject)) :: string openai_request \<Rightarrow> thrown_value thrown + chat_completion) (clientOf Gpt_4_1) ''hi'' emptyAsk
       = Rejected (ThrownError typeError)
   \<and> openai_askJson objectHost ((\<lambda>_. Inl (ThrownValue NullPrototypeObject)) :: string openai_request \<Rightarrow> thrown_value thrown + chat_completion) (clientOf Gpt_4_1) ''hi'' emptyAskJson
       = Rejected (ThrownError typeError)
   \<and> gemini_ask stringOf ((\<lambda>_. Inl (ThrownValue NullPrototypeObject)) :: string gemini_params \<Rightarrow> thrown_value thrown + gemini_response) (clientOf Gemini_2_5_flash) ''hi'' emptyAsk
       = Rejected (ThrownError typeError)
   \<and> gemini_askJson objectHost ((\<lambda>_. Inl (ThrownValue NullPrototypeObject)) :: string gemini_params \<Rightarrow> thrown_value thrown + gemini_response) (clientOf Gemini_2_5_flash) ''hi'' emptyAskJson
       = Rejected (ThrownError typeError)
   \<and> mistral_ask stringOf ((\<lambda>_. Inl (ThrownValue NullPrototypeObject)) :: mistral_request \<Rightarrow> thrown_value thrown + mistral_response) (clientOf Mistral_large_latest) ''hi'' emptyAsk
       = Rejected (ThrownError typeError)
   \<and> mistral_askJson objectHost ((\<lambda>_. Inl (ThrownValue NullPrototypeObject)) :: mistral_request \<Rightarrow> thrown_value thrown + mistral_response) (clientOf Mistral_large_latest) ''hi'' emptyAskJson
       = Rejected (ThrownError typeError)
   \<and> groq_ask stringOf ((\<lambda>_. Inl (ThrownValue (StringValue ''boom''))) :: string groq_request \<Rightarrow> thrown_value thrown + chat_completion) (clientOf Qwen3_32b) ''hi'' emptyAsk
       = Resolved (Inl (newError ''boom''))"
proof -
  have thrown: "handleError stringOf (ThrownValue NullPrototypeObject) = Inl (ThrownError typeError)"
    by simp
  have thrown': "handleError (String objectHost) (ThrownValue NullPrototypeObject)
      = Inl (ThrownError typeError)"
    by (simp add: objectHost_def)

  have groq_request: "groq_askJson_request objectHost (clientOf Qwen3_32b) ''hi'' emptyAskJson
      = Inr (projr (groq_askJson_request objectHost (clientOf Qwen3_32b) ''hi'' emptyAskJson))"
    by (simp add: groq_askJson_request_isl objectHost_def emptyAskJson_def)
  have groq_ask: "groq_ask stringOf ((\<lambda>_. Inl (ThrownValue NullPrototypeObject)) :: string groq_request \<Rightarrow> thrown_value thrown + chat_completion) (clientOf Qwen3_32b) ''hi'' emptyAsk
       = Rejected (ThrownError typeError)"
    by (rule groq_failures_rejected(1) [OF thrown]) simp
  have groq_json: "groq_askJson objectHost ((\<lambda>_. Inl (ThrownValue NullPrototypeObject)) :: string groq_request \<Rightarrow> thrown_value thrown + chat_completion) (clientOf Qwen3_32b) ''hi'' emptyAskJson
       = Rejected (ThrownError typeError)"
    by (rule groq_failures_rejected(2) [OF thrown' groq_request]) simp

  have claude_request: "claude_askJson_request objectHost (clientOf Claude_sonnet_4_0) ''hi'' emptyAskJson
      = Inr (projr (claude_askJson_request objectHost (clientOf Claude_sonnet_4_0) ''hi'' emptyAskJson))"
    by (simp add: claude_askJson_request_isl objectHost_def emptyAskJson_def)
  have claude_ask: "claude_ask stringOf ((\<lambda>_. Inl (ThrownValue NullPrototypeObject)) :: string claude_request \<Rightarrow> thrown_value thrown + js_string claude_completion) (clientOf Claude_sonnet_4_0) ''hi'' emptyAsk
       = Rejected (ThrownError typeError)"
    by (rule claude_failures_rejected(1) [OF thrown]) simp
  have claude_json: "claude_askJson objectHost ((\<lambda>_. Inl (ThrownValue NullPrototypeObject)) :: string claude_request \<Rightarrow> thrown_value thrown + js_string claude_completion) (clientOf Claude_sonnet_4_0) ''hi'' emptyAskJson
       = Rejected (ThrownError typeError)"
    by (rule claude_failures_rejected(2) [OF thrown' claude_request]) simp

  have openai_request: "openai_askJson_request objectHost (clientOf Gpt_4_1) ''hi'' emptyAskJson
      = Inr (projr (openai_askJson_request objectHost (clientOf Gpt_4_1) ''hi'' emptyAskJson))"
    by (simp add: openai_askJson_request_isl objectHost_def emptyAskJson_def)
  have openai_ask: "openai_ask stringOf ((\<lambda>_. Inl (ThrownValue NullPrototypeObject)) :: string openai_request \<Rightarrow> thrown_value thrown + chat_completion) (clientOf Gpt_4_1) ''hi'' emptyAsk
       = Rejected (ThrownError typeError)"
    by (rule openai_failures_rejected(1) [OF thrown]) simp
  have openai_json: "openai_askJson objectHost ((\<lambda>_. Inl (ThrownValue NullPrototypeObject)) :: string openai_request \<Rightarrow> thrown_value thrown + chat_completion) (clientOf Gpt_4_1) ''hi'' emptyAskJson
       = Rejected (ThrownError typeError)"
    by (rule openai_failures_rejected(2) [OF thrown' openai_request]) simp

  have gemini_request: "gemini_askJson_params objectHost (clientOf Gemini_2_5_flash) ''hi'' emptyAskJson
      = Inr (projr (gemini_askJson_params objectHost (clientOf Gemini_2_5_flash) ''hi'' emptyAskJson))"
    by (simp add: gemini_askJson_params_isl objectHost_def emptyAskJson_def)
  have gemini_ask: "gemini_ask stringOf ((\<lambda>_. Inl (ThrownValue NullPrototypeObject)) :: string gemini_params \<Rightarrow> thrown_value thrown + gemini_response) (clientOf Gemini_2_5_flash) ''hi'' emptyAsk
       = Rejected (ThrownError typeError)"
    by (rule gemini_failures_rejected(1) [OF thrown]) simp
  have gemini_json: "gemini_askJson objectHost ((\<lambda>_. Inl (ThrownValue NullPrototypeObject)) :: string gemini_params \<Rightarrow> thrown_value thrown + gemini_response) (clientOf Gemini_2_5_flash) ''hi'' emptyAskJson
       = Rejected (ThrownError typeError)"
    by (rule gemini_failures_rejected(2) [OF thrown' gemini_request]) simp

  have mistral_request: "mistral_askJson_request objectHost (clientOf Mistral_large_latest) ''hi'' emptyAskJson
      = Inr (projr (mistral_askJson_request objectHost (clientOf Mistral_large_latest) ''hi'' emptyAskJson))"
    by (simp add: mistral_askJson_request_isl objectHost_def emptyAskJson_def)
  have mistral_ask: "mistral_ask stringOf ((\<lambda>_. Inl (ThrownValue NullPrototypeObject)) :: mistral_request \<Rightarrow> thrown_value thrown + mistral_response) (clientOf Mistral_large_latest) ''hi'' emptyAsk
       = Rejected (ThrownError typeError)"
    by (rule mistral_failures_rejected(1) [OF thrown]) simp
  have mistral_json: "mistral_askJson objectHost ((\<lambda>_. Inl (ThrownValue NullPrototypeObject)) :: mistral_request \<Rightarrow> thrown_value thrown + mistral_response) (clientOf Mistral_large_latest) ''hi'' emptyAskJson
       = Rejected (ThrownError typeError)"
    by (rule mistral_failures_rejected(2) [OF thrown' mistral_request]) simp

  have string: "groq_ask stringOf ((\<lambda>_. Inl (ThrownValue (StringValue ''boom''))) :: string groq_request \<Rightarrow> thrown_value thrown + chat_completion) (clientOf Qwen3_32b) ''hi'' emptyAsk
       = Resolved (Inl (newError ''boom''))"
    by (rule groq_failures(1) [where t = "ThrownValue (StringValue ''boom'')"]) simp_all

  from thrown groq_ask groq_json claude_ask claude_json openai_ask openai_json gemini_ask gemini_json mistral_ask mistral_json string
  show ?thesis by (intro conjI)
qed

subsection \<open>Empty content\<close>








subsection \<open>Groq: the thinking block\<close>

lemma lastIndexFrom_last:
  assumes "occursAt s p i" and "i \<le> k" and "\<forall>j. i < j \<and> j \<le> k \<longrightarrow> \<not> occursAt s p j"
  shows "lastIndexFrom s p k = int i"
  using assms
proof (induction k)
  case 0
  then show ?case by simp
next
  case (Suc k)
  show ?case
  proof (cases "i = Suc k")
    case True
    with Suc.prems(1) show ?thesis by simp
  next
    case False
    with Suc.prems(2) have le: "i \<le> k" by simp
    from False Suc.prems(2,3) have no: "\<not> occursAt s p (Suc k)" by auto
    from Suc.prems(3) have "\<forall>j. i < j \<and> j \<le> k \<longrightarrow> \<not> occursAt s p j" by auto
    with Suc.IH [OF Suc.prems(1) le] no show ?thesis by simp
  qed
qed

lemma lastIndexOf_last:
  assumes "occursAt s p i" and "\<forall>j>i. \<not> occursAt s p j"
  shows "lastIndexOf s p = int i"
proof -
  from assms(1) have fit: "i + length p \<le> length s" by (simp add: occursAt_def)
  then have "\<not> length s < length p" and "i \<le> length s - length p" by simp_all
  moreover from assms(2) have "\<forall>j. i < j \<and> j \<le> length s - length p \<longrightarrow> \<not> occursAt s p j"
    by simp
  ultimately show ?thesis
    using lastIndexFrom_last [OF assms(1)] by (simp add: lastIndexOf_def)
qed

lemma occursAt_middle: "occursAt (pre @ p @ post) p (length pre)"
  by (simp add: occursAt_def)

lemma stripThinking_plain:
  "\<not> startsWith v (jsString ''<think>'') \<Longrightarrow> stripThinking (Some v) = Some v"
  by (simp add: stripThinking_def)

lemma stripThinking_block:
  assumes "startsWith v (jsString ''<think>'')" and "v = pre @ jsString ''</think>'' @ post"
    and "\<forall>j>length pre. \<not> occursAt v (jsString ''</think>'') j"
  shows "stripThinking (Some v) = Some (dropWhile isWhiteSpace post)"
proof -
  have "occursAt v (jsString ''</think>'') (length pre)"
    unfolding assms(2) by (rule occursAt_middle)
  then have "lastIndexOf v (jsString ''</think>'') = int (length pre)"
    using assms(3) by (rule lastIndexOf_last)
  then have "slice v (lastIndexOf v (jsString ''</think>'') + int (length (jsString ''</think>''))) =
      drop (length pre + 8) v"
    by (simp add: slice_def nat_add_distrib jsString_def)
  also have "\<dots> = post"
    by (simp add: assms(2) jsString_def)
  finally show ?thesis
    using assms(1) by (simp add: stripThinking_def trimStart_def Let_def)
qed

text \<open>
  A text that starts with \<^verbatim>\<open><think>\<close> and has no \<^verbatim>\<open></think>\<close> loses the seven
  code units of the opening mark: \<^verbatim>\<open>lastIndexOf\<close> is \<open>-1\<close> and the slice starts at
  \<open>-1 + 8\<close>.
\<close>

lemma lastIndexFrom_none:
  "\<forall>j\<le>k. \<not> occursAt s p j \<Longrightarrow> lastIndexFrom s p k = - 1"
  by (induction k) simp_all

lemma stripThinking_unclosed:
  assumes "startsWith v (jsString ''<think>'')" and "\<forall>j. \<not> occursAt v (jsString ''</think>'') j"
  shows "stripThinking (Some v) = Some (dropWhile isWhiteSpace (drop 7 v))"
proof -
  from assms(2) have "lastIndexOf v (jsString ''</think>'') = - 1"
    by (simp add: lastIndexOf_def lastIndexFrom_none)
  with assms(1) show ?thesis
    by (simp add: stripThinking_def slice_def trimStart_def Let_def jsString_def)
qed

lemma orEmpty_Some: "orEmpty (Some s) = s"
  by simp

lemma groq_ask_content:
  assumes "create (groq_ask_request cp input ap) = Inr c"
    and "firstContent (choices c) = Some v" and "stripThinking (Some v) = Some v'"
  shows "groq_ask str create cp input ap = Resolved (Inr v')"
  using assms by (simp add: groq_ask_def groq_ask_try_def catchReturn_def Let_def)

lemma groq_askJson_content:
  assumes "groq_askJson_request h cp input apj = Inr r" and "create r = Inr c"
    and "firstContent (choices c) = Some v" and "stripThinking (Some v) = Some v'"
    and "v' \<noteq> []"
  shows "groq_askJson h create cp input apj =
           catchReturn (String h)
             (andThen (JSON_parse h v')
                (\<lambda>j. andThen (parse h (schema apj) j) (\<lambda>res. Inr (Inr res))))"
  using assms by (simp add: groq_askJson_def groq_askJson_try_def Let_def)

text \<open>
  Claim C9. A text is a sequence of UTF-16 code units, as in JavaScript, and the
  white space is that of \<^verbatim>\<open>trimStart\<close>. \<^verbatim>\<open>stripThinking\<close> leaves a text that does not start with
  \<^verbatim>\<open><think>\<close> as it is, whatever follows. Of a text that starts with
  \<^verbatim>\<open><think>\<close> and has a last \<^verbatim>\<open></think>\<close>, it gives what follows this last
  mark, without its leading white space. The \<^verbatim>\<open>ask\<close> of the Groq client
  resolves to the stripped text, and its \<^verbatim>\<open>askJson\<close> gives the stripped text,
  when it is not empty, to \<^verbatim>\<open>JSON.parse\<close>.
\<close>

theorem groq_strip_thinking:
  fixes h :: "('s, 'j, 'v, 'x) host"
  shows
  "(\<not> startsWith v (jsString ''<think>'') \<longrightarrow> stripThinking (Some v) = Some v)
   \<and> (startsWith v (jsString ''<think>'') \<and> v = pre @ jsString ''</think>'' @ post
        \<and> (\<forall>j>length pre. \<not> occursAt v (jsString ''</think>'') j) \<longrightarrow>
        stripThinking (Some v) = Some (dropWhile isWhiteSpace post))
   \<and> (create (groq_ask_request cp input ap) = Inr c \<and> firstContent (choices c) = Some v
        \<and> stripThinking (Some v) = Some v' \<longrightarrow>
        groq_ask str create cp input ap = Resolved (Inr v'))
   \<and> (groq_askJson_request h cp input apj = Inr r \<and> create r = Inr c
        \<and> firstContent (choices c) = Some v \<and> stripThinking (Some v) = Some v' \<and> v' \<noteq> [] \<longrightarrow>
        groq_askJson h create cp input apj =
          catchReturn (String h)
            (andThen (JSON_parse h v')
               (\<lambda>j. andThen (parse h (schema apj) j) (\<lambda>res. Inr (Inr res)))))"
  using stripThinking_plain [of v] stripThinking_block [of v pre post]
    groq_ask_content [of create cp input ap c v v' str]
    groq_askJson_content [of h cp input apj r create c v v']
  by blast

theorem groq_strip_thinking_witness:
  "\<not> startsWith plainText (jsString ''<think>'')
   \<and> stripThinking (Some plainText) = Some plainText
   \<and> startsWith thinkingText (jsString ''<think>'')
   \<and> thinkingText = jsString ''<think>a</think>b'' @ jsString ''</think>'' @ jsString '' c''
   \<and> \<not> occursAt thinkingText (jsString ''</think>'') 18
   \<and> stripThinking (Some thinkingText) = Some (jsString ''c'')
   \<and> startsWith wideText (jsString ''<think>'')
   \<and> wideText = jsString ''<think>a'' @ jsString ''</think>'' @ [0x3000, 0xFEFF, 0x2028, 0x4F60]
   \<and> stripThinking (Some wideText) = Some [0x4F60]
   \<and> groq_ask (\<lambda>x. Inr x)
        ((\<lambda>_. Inr \<lparr>choices = [Some thinkingText]\<rparr>)
           :: string groq_request \<Rightarrow> string thrown + chat_completion)
        (clientOf Qwen3_32b) ''hi'' emptyAsk
       = Resolved (Inr (jsString ''c''))
   \<and> \<not> isl (groq_askJson_request idHost (clientOf Qwen3_32b) ''hi'' emptyAskJson)
   \<and> groq_askJson idHost
        ((\<lambda>_. Inr \<lparr>choices = [Some thinkingText]\<rparr>)
           :: string groq_request \<Rightarrow> string thrown + chat_completion)
        (clientOf Qwen3_32b) ''hi'' emptyAskJson
       = Resolved (Inr (jsString ''c''))"
proof -
  let ?q = "groq_askJson_request idHost (clientOf Qwen3_32b) ''hi'' emptyAskJson"
  let ?create = "(\<lambda>_. Inr \<lparr>choices = [Some thinkingText]\<rparr>)
                   :: string groq_request \<Rightarrow> string thrown + chat_completion"
  note plain = groq_strip_thinking [where v = plainText and 'j = string and 's = string
      and 'v = js_string and 'x = string, THEN conjunct1]
  note wide = groq_strip_thinking [where v = wideText and pre = "jsString ''<think>a''"
      and post = "[0x3000, 0xFEFF, 0x2028, 0x4F60]" and 'j = string and 's = string
      and 'v = js_string and 'x = string, THEN conjunct2, THEN conjunct1]
  note t = groq_strip_thinking [where v = thinkingText and pre = "jsString ''<think>a</think>b''"
      and post = "jsString '' c''" and v' = "jsString ''c''" and h = idHost and create = ?create
      and cp = "clientOf Qwen3_32b" and input = "''hi''" and ap = emptyAsk
      and apj = emptyAskJson and c = "\<lparr>choices = [Some thinkingText]\<rparr>"
      and r = "projr ?q" and str = "\<lambda>x. Inr x"]
  have p: "\<not> startsWith plainText (jsString ''<think>'')"
    by (simp add: startsWith_def plainText_def jsString_def)
  have s: "startsWith thinkingText (jsString ''<think>'')"
    and e: "thinkingText =
        jsString ''<think>a</think>b'' @ jsString ''</think>'' @ jsString '' c''"
    by (simp_all add: startsWith_def thinkingText_def jsString_def)
  have l: "\<not> occursAt thinkingText (jsString ''</think>'') j"
    if "length (jsString ''<think>a</think>b'') < j" for j
  proof (cases "j + 8 \<le> 27")
    case True
    with that have "j = 18 \<or> j = 19" by (auto simp add: jsString_def)
    then show ?thesis
      by (auto simp add: occursAt_def thinkingText_def jsString_def)
  next
    case False
    then show ?thesis by (simp add: occursAt_def thinkingText_def jsString_def)
  qed
  have "length (jsString ''<think>a</think>b'') < 18" by (simp add: jsString_def)
  then have l18: "\<not> occursAt thinkingText (jsString ''</think>'') 18" by (rule l)
  have w: "dropWhile isWhiteSpace (jsString '' c'') = jsString ''c''"
    by (simp add: isWhiteSpace_def jsString_def)
  from t [THEN conjunct2, THEN conjunct1] s e l w
  have strip: "stripThinking (Some thinkingText) = Some (jsString ''c'')" by simp
  have ws: "startsWith wideText (jsString ''<think>'')"
    and we: "wideText =
        jsString ''<think>a'' @ jsString ''</think>'' @ [0x3000, 0xFEFF, 0x2028, 0x4F60]"
    by (simp_all add: startsWith_def wideText_def jsString_def)
  have wl: "\<not> occursAt wideText (jsString ''</think>'') j"
    if "length (jsString ''<think>a'') < j" for j
  proof (cases "j + 8 \<le> 20")
    case True
    with that have "j = 9 \<or> j = 10 \<or> j = 11 \<or> j = 12" by (auto simp add: jsString_def)
    then show ?thesis
      by (auto simp add: occursAt_def wideText_def jsString_def)
  next
    case False
    then show ?thesis by (simp add: occursAt_def wideText_def jsString_def)
  qed
  have ww: "dropWhile isWhiteSpace [0x3000, 0xFEFF, 0x2028, 0x4F60] = [0x4F60 :: code_unit]"
    by (simp add: isWhiteSpace_def)
  from wide ws we wl ww
  have wstrip: "stripThinking (Some wideText) = Some [0x4F60]" by simp
  have f: "firstContent (choices \<lparr>choices = [Some thinkingText]\<rparr>) = Some thinkingText"
    by (simp add: firstContent_def)
  have q: "?q = Inr (projr ?q)" and built: "\<not> isl ?q"
    by (simp_all add: groq_askJson_request_isl idHost_def emptyAskJson_def)
  from t [THEN conjunct2, THEN conjunct2, THEN conjunct1] f strip
  have ask: "groq_ask (\<lambda>x. Inr x) ?create (clientOf Qwen3_32b) ''hi'' emptyAsk
       = Resolved (Inr (jsString ''c''))"
    by simp
  have ne: "jsString ''c'' \<noteq> []" by (simp add: jsString_def)
  from t [THEN conjunct2, THEN conjunct2, THEN conjunct2] q f strip ne
  have "groq_askJson idHost ?create (clientOf Qwen3_32b) ''hi'' emptyAskJson =
          catchReturn (String idHost)
            (andThen (JSON_parse idHost (jsString ''c''))
               (\<lambda>j. andThen (parse idHost (schema emptyAskJson) j) (\<lambda>res. Inr (Inr res))))"
    by blast
  then have json: "groq_askJson idHost ?create (clientOf Qwen3_32b) ''hi'' emptyAskJson
       = Resolved (Inr (jsString ''c''))"
    by (simp add: idHost_def catchReturn_def)
  from p plain s e l18 strip ws we wstrip ask built json show ?thesis by blast
qed

end
